theory Spec2Isabelle
  imports Complex_Main
begin

section \<open>The playground page: typed variables, conversion and the run life cycle\<close>

text \<open>
  The page component \<^verbatim>\<open>PlaygroundPage\<close> keeps a list of variable rows, converts them
  to a typed payload when the form is submitted, calls the remote client and stores the
  response or the error. This theory embeds its functions \<^verbatim>\<open>addVariableField\<close>,
  \<^verbatim>\<open>removeVariableField\<close>, \<^verbatim>\<open>updateVariableField\<close>, \<^verbatim>\<open>parseVariableValue\<close>,
  \<^verbatim>\<open>runPrompt\<close> and the feedback widget's callbacks, together with the part of the
  ECMAScript library they call (\<^verbatim>\<open>parseFloat\<close>, \<^verbatim>\<open>isNaN\<close>, \<^verbatim>\<open>JSON.parse\<close>,
  \<^verbatim>\<open>Array.isArray\<close>, \<^verbatim>\<open>typeof\<close>, \<^verbatim>\<open>String.prototype.trim\<close>, property assignment).
\<close>

subsection \<open>ECMAScript values\<close>

text \<open>
  A JavaScript string is a sequence of UTF-16 code units; the model's \<open>string\<close> holds the
  code units below 256. A JavaScript number is an IEEE 754 double: a NaN, an infinity, the
  negative zero, or a finite value, which the model holds as the rational it is equal to
  (\<open>Finite 0\<close> is the positive zero).
\<close>

datatype js_number = NaN | PosInfinity | NegInfinity | NegZero | Finite rat

datatype js_value =
    VNull
  | VBoolean bool
  | VNumber js_number
  | VString string
  | VArray "js_value list"
  | VObject "(string \<times> js_value) list"

fun isNaN :: "js_number \<Rightarrow> bool" where
  "isNaN NaN = True"
| "isNaN _ = False"

fun isFinite :: "js_number \<Rightarrow> bool" where
  "isFinite (Finite _) = True"
| "isFinite NegZero = True"
| "isFinite _ = False"

fun typeof :: "js_value \<Rightarrow> string" where
  "typeof VNull = ''object''"
| "typeof (VBoolean _) = ''boolean''"
| "typeof (VNumber _) = ''number''"
| "typeof (VString _) = ''string''"
| "typeof (VArray _) = ''object''"
| "typeof (VObject _) = ''object''"

fun Array_isArray :: "js_value \<Rightarrow> bool" where
  "Array_isArray (VArray _) = True"
| "Array_isArray _ = False"

text \<open>
  What a \<^verbatim>\<open>throw\<close> carries. \<open>Error\<close> and \<open>SyntaxError\<close> are instances of \<^verbatim>\<open>Error\<close>
  and have a message; \<open>NonError\<close> stands for any other thrown value (a remote client may
  reject with one).
\<close>

datatype thrown = Error string | SyntaxError string | NonError

text \<open>The idiom \<^verbatim>\<open>e instanceof Error ? e.message : fallback\<close>.\<close>

fun message_or :: "thrown \<Rightarrow> string \<Rightarrow> string" where
  "message_or (Error m) fallback = m"
| "message_or (SyntaxError m) fallback = m"
| "message_or NonError fallback = fallback"

subsection \<open>Characters, white space and \<^verbatim>\<open>trim\<close>\<close>

definition digit :: "char \<Rightarrow> bool" where
  "digit c = (c \<in> set ''0123456789'')"

definition digit_val :: "char \<Rightarrow> int" where
  "digit_val c = of_char c - 48"

text \<open>The decimal value of a string of digits.\<close>

definition digits_val :: "string \<Rightarrow> int" where
  "digits_val ds = foldl (\<lambda>n c. 10 * n + digit_val c) 0 ds"

definition pow10 :: "int \<Rightarrow> rat" where
  "pow10 e = (if 0 \<le> e then 10 ^ nat e else 1 / 10 ^ nat (- e))"

text \<open>
  White space and line terminators of ECMAScript among the code units below 256:
  TAB, LF, VT, FF, CR, SP and NBSP.
\<close>

definition js_space :: "char \<Rightarrow> bool" where
  "js_space c = (c \<in> {CHR 0x09, CHR 0x0A, CHR 0x0B, CHR 0x0C, CHR 0x0D, CHR 0x20, CHR 0xA0})"

definition trimStart :: "string \<Rightarrow> string" where
  "trimStart s = dropWhile js_space s"

definition trim :: "string \<Rightarrow> string" where
  "trim s = rev (dropWhile js_space (rev (dropWhile js_space s)))"

subsection \<open>The Number value of a decimal literal\<close>

text \<open>
  A numeric literal denotes a real number, its mathematical value; the number the program
  gets is the double nearest to it (ECMA-262, the Number value for a real: IEEE 754
  round to nearest, ties to even). A value too large for a double becomes an infinity, a
  value too small becomes zero. \<open>to_double\<close> does this for a mathematical value \<open>q \<ge> 0\<close>:
  it rounds \<open>q\<close> to a multiple of the distance \<open>2 powi p\<close> between the doubles around \<open>q\<close>,
  where \<open>p\<close> comes from the binary exponent of \<open>q\<close>, or from the least exponent of a
  normal double when \<open>q\<close> is below it. (For a literal of more than 20 significant digits
  ECMA-262 also allows an engine to round after dropping the digits beyond the 20th; the
  model takes the nearest double, as it does for every shorter literal.)
\<close>

text \<open>The number of binary digits of a positive integer.\<close>

function bit_length :: "int \<Rightarrow> nat" where
  "bit_length n = (if n \<le> 0 then 0 else Suc (bit_length (n div 2)))"
  by pat_completeness simp_all
termination
  by (relation "measure nat") simp_all

declare bit_length.simps [simp del]

text \<open>
  The binary exponent of \<open>q > 0\<close>: the \<open>e\<close> with \<open>2 powi e \<le> q < 2 powi (e + 1)\<close>. For the
  fraction \<open>n / d\<close> it is the difference of the bit lengths of \<open>n\<close> and \<open>d\<close>, or one less.
\<close>

definition ilog2 :: "rat \<Rightarrow> int" where
  "ilog2 q =
     (let k = int (bit_length (fst (quotient_of q))) - int (bit_length (snd (quotient_of q)))
      in if 2 powi k \<le> q then k else k - 1)"

text \<open>The integer nearest to \<open>x\<close>, the even one of the two when \<open>x\<close> is half way.\<close>

definition round_half_even :: "rat \<Rightarrow> int" where
  "round_half_even x =
     (let f = \<lfloor>x\<rfloor>; r = x - of_int f
      in if r < 1 / 2 then f
         else if 1 / 2 < r then f + 1
         else if even f then f else f + 1)"

definition to_double :: "rat \<Rightarrow> js_number" where
  "to_double q =
     (if q = 0 then Finite 0
      else
        let p = max (ilog2 q) (- 1022) - 52;
            r = of_int (round_half_even (q / 2 powi p)) * 2 powi p
        in if 2 ^ 1024 \<le> r then PosInfinity else Finite r)"

fun negate :: "js_number \<Rightarrow> js_number" where
  "negate NaN = NaN"
| "negate PosInfinity = NegInfinity"
| "negate NegInfinity = PosInfinity"
| "negate NegZero = Finite 0"
| "negate (Finite q) = (if q = 0 then NegZero else Finite (- q))"

subsection \<open>\<^verbatim>\<open>parseFloat\<close>\<close>

text \<open>
  ECMA-262, \<^verbatim>\<open>parseFloat(string)\<close>: leading white space is removed, the longest prefix
  that is a \<^verbatim>\<open>StrDecimalLiteral\<close> is read, and the result is NaN when there is no such
  prefix. A \<^verbatim>\<open>StrDecimalLiteral\<close> is an optional sign followed by \<^verbatim>\<open>Infinity\<close>, or by
  digits with an optional fraction, or by a dot and digits, each of the last two with an
  optional exponent. Whatever follows the prefix is ignored. The result is the double
  nearest to the value of the prefix, negated after a minus sign.
\<close>

text \<open>An exponent part \<^verbatim>\<open>e\<close>, optional sign, digits; 0 when there is none.\<close>

definition exponent_part :: "string \<Rightarrow> int" where
  "exponent_part s =
     (case s of
        [] \<Rightarrow> 0
      | c # r \<Rightarrow>
          if c = CHR ''e'' \<or> c = CHR ''E'' then
            (case r of
               [] \<Rightarrow> 0
             | d # r' \<Rightarrow>
                 if d = CHR ''+'' then digits_val (takeWhile digit r')
                 else if d = CHR ''-'' then - digits_val (takeWhile digit r')
                 else digits_val (takeWhile digit r))
          else 0)"

definition unsigned_decimal :: "string \<Rightarrow> js_number" where
  "unsigned_decimal u =
     (if take 8 u = ''Infinity'' then PosInfinity
      else
        let ip = takeWhile digit u;
            r1 = dropWhile digit u;
            fp = (case r1 of [] \<Rightarrow> [] | c # r \<Rightarrow> if c = CHR ''.'' then takeWhile digit r else []);
            r2 = (case r1 of [] \<Rightarrow> [] | c # r \<Rightarrow> if c = CHR ''.'' then dropWhile digit r else r1)
        in if ip = [] \<and> fp = [] then NaN
           else to_double (of_int (digits_val (ip @ fp))
                             * pow10 (exponent_part r2 - int (length fp))))"

definition parseFloat :: "string \<Rightarrow> js_number" where
  "parseFloat s =
     (case trimStart s of
        [] \<Rightarrow> NaN
      | c # r \<Rightarrow>
          if c = CHR ''+'' then unsigned_decimal r
          else if c = CHR ''-'' then negate (unsigned_decimal r)
          else unsigned_decimal (c # r))"

text \<open>
  The texts \<^verbatim>\<open>parseFloat\<close> reads a number from, said without computing the number: after
  leading white space and an optional sign the text goes on with \<^verbatim>\<open>Infinity\<close>, with a
  digit, or with a dot and a digit.
\<close>

definition decimal_start :: "string \<Rightarrow> bool" where
  "decimal_start u =
     (take 8 u = ''Infinity'' \<or>
      (case u of
         [] \<Rightarrow> False
       | c # r \<Rightarrow> digit c \<or> (c = CHR ''.'' \<and> (case r of [] \<Rightarrow> False | d # _ \<Rightarrow> digit d))))"

definition numeric_prefix :: "string \<Rightarrow> bool" where
  "numeric_prefix s =
     (case trimStart s of
        [] \<Rightarrow> False
      | c # r \<Rightarrow> if c = CHR ''+'' \<or> c = CHR ''-'' then decimal_start r else decimal_start (c # r))"

subsection \<open>\<^verbatim>\<open>JSON.parse\<close>\<close>

text \<open>
  ECMA-262 \<^verbatim>\<open>JSON.parse(text)\<close> accepts exactly the texts of the JSON grammar (ECMA-404)
  and throws a \<^verbatim>\<open>SyntaxError\<close> on every other text. The model reads the text in two
  passes, both total: a lexer that turns the characters into tokens, and a parser that
  runs over the tokens with a stack of the containers that are still open.
\<close>

datatype token =
    LBrace | RBrace | LBracket | RBracket | Colon | Comma
  | Scalar js_value

definition json_space :: "char \<Rightarrow> bool" where
  "json_space c = (c \<in> {CHR 0x20, CHR 0x09, CHR 0x0A, CHR 0x0D})"

definition hex_digit :: "char \<Rightarrow> bool" where
  "hex_digit c = (c \<in> set ''0123456789abcdefABCDEF'')"

definition hex_val :: "char \<Rightarrow> nat" where
  "hex_val c =
     (if digit c then of_char c - 48
      else if c \<in> set ''abcdef'' then of_char c - 87
      else of_char c - 55)"

text \<open>The character a one-letter escape stands for.\<close>

definition escape :: "char \<Rightarrow> char option" where
  "escape e =
     (if e = CHR 0x22 then Some (CHR 0x22)
      else if e = CHR 0x5C then Some (CHR 0x5C)
      else if e = CHR ''/'' then Some (CHR ''/'')
      else if e = CHR ''b'' then Some (CHR 0x08)
      else if e = CHR ''f'' then Some (CHR 0x0C)
      else if e = CHR ''n'' then Some (CHR 0x0A)
      else if e = CHR ''r'' then Some (CHR 0x0D)
      else if e = CHR ''t'' then Some (CHR 0x09)
      else None)"

text \<open>
  The code unit of a \<^verbatim>\<open>\uXXXX\<close> escape. A code unit of 256 or more has no \<open>char\<close>; the
  model then keeps the six characters of the escape as they are written. Which texts are
  accepted does not depend on this.
\<close>

definition unicode_escape :: "string \<Rightarrow> string" where
  "unicode_escape hs =
     (let n = foldl (\<lambda>n c. 16 * n + hex_val c) 0 hs
      in if n < 256 then [char_of n] else CHR 0x5C # CHR ''u'' # hs)"

text \<open>
  The rest of a string literal, after its opening quote: the characters it denotes and the
  text after its closing quote. Control characters must be escaped.
\<close>

fun lex_string :: "string \<Rightarrow> (string \<times> string) option" where
  "lex_string [] = None"
| "lex_string (c # cs) =
     (if c = CHR 0x22 then Some ([], cs)
      else if c = CHR 0x5C then
        (case cs of
           [] \<Rightarrow> None
         | e # es \<Rightarrow>
             if e = CHR ''u'' then
               (if 4 \<le> length es \<and> list_all hex_digit (take 4 es) then
                  map_option (\<lambda>(str, rest). (unicode_escape (take 4 es) @ str, rest))
                    (lex_string (drop 4 es))
                else None)
             else
               (case escape e of
                  None \<Rightarrow> None
                | Some d \<Rightarrow> map_option (\<lambda>(str, rest). (d # str, rest)) (lex_string es)))
      else if (of_char c :: nat) < 32 then None
      else map_option (\<lambda>(str, rest). (c # str, rest)) (lex_string cs))"

text \<open>
  A number literal: an optional minus, an integer part without a leading zero (unless it is
  0 itself), an optional fraction with at least one digit, an optional exponent with at
  least one digit. The result is the double nearest to its value, and the text after it.
\<close>

definition lex_fraction :: "string \<Rightarrow> (string \<times> string) option" where
  "lex_fraction s =
     (case s of
        [] \<Rightarrow> Some ([], [])
      | c # r \<Rightarrow>
          if c = CHR ''.'' then
            (if takeWhile digit r = [] then None
             else Some (takeWhile digit r, dropWhile digit r))
          else Some ([], s))"

definition lex_exponent :: "string \<Rightarrow> (int \<times> string) option" where
  "lex_exponent s =
     (case s of
        [] \<Rightarrow> Some (0, [])
      | c # r \<Rightarrow>
          if c = CHR ''e'' \<or> c = CHR ''E'' then
            (let neg = (case r of [] \<Rightarrow> False | d # _ \<Rightarrow> d = CHR ''-'');
                 r' = (case r of [] \<Rightarrow> [] | d # t \<Rightarrow> if d = CHR ''+'' \<or> d = CHR ''-'' then t else r)
             in if takeWhile digit r' = [] then None
                else Some ((if neg then - 1 else 1) * digits_val (takeWhile digit r'),
                           dropWhile digit r'))
          else Some (0, s))"

definition lex_number :: "string \<Rightarrow> (js_number \<times> string) option" where
  "lex_number s =
     (let neg = (case s of [] \<Rightarrow> False | c # _ \<Rightarrow> c = CHR ''-'');
          s1 = (if neg then tl s else s);
          ip = takeWhile digit s1
      in if ip = [] \<or> (1 < length ip \<and> hd ip = CHR ''0'') then None
         else
           (case lex_fraction (dropWhile digit s1) of
              None \<Rightarrow> None
            | Some (fp, s3) \<Rightarrow>
                (case lex_exponent s3 of
                   None \<Rightarrow> None
                 | Some (e, s4) \<Rightarrow>
                     Some ((if neg then negate else id)
                             (to_double (of_int (digits_val (ip @ fp))
                                           * pow10 (e - int (length fp)))), s4))))"

definition starts_with :: "string \<Rightarrow> string \<Rightarrow> bool" where
  "starts_with p s = (take (length p) s = p)"

text \<open>
  One step of the lexer at the character \<open>c\<close> followed by \<open>cs\<close>: the tokens read (none for
  white space) and the text that remains.
\<close>

definition lex_step :: "char \<Rightarrow> string \<Rightarrow> (token list \<times> string) option" where
  "lex_step c cs =
     (if json_space c then Some ([], cs)
      else if c = CHR ''{'' then Some ([LBrace], cs)
      else if c = CHR ''}'' then Some ([RBrace], cs)
      else if c = CHR ''['' then Some ([LBracket], cs)
      else if c = CHR '']'' then Some ([RBracket], cs)
      else if c = CHR '':'' then Some ([Colon], cs)
      else if c = CHR '','' then Some ([Comma], cs)
      else if c = CHR 0x22 then
        map_option (\<lambda>(str, rest). ([Scalar (VString str)], rest)) (lex_string cs)
      else if c = CHR ''-'' \<or> digit c then
        map_option (\<lambda>(n, rest). ([Scalar (VNumber n)], rest)) (lex_number (c # cs))
      else if starts_with ''true'' (c # cs) then Some ([Scalar (VBoolean True)], drop 3 cs)
      else if starts_with ''false'' (c # cs) then Some ([Scalar (VBoolean False)], drop 4 cs)
      else if starts_with ''null'' (c # cs) then Some ([Scalar VNull], drop 3 cs)
      else None)"

text \<open>
  Each step of the lexer leaves less text than it was given, so the lexer terminates.
\<close>

lemma lex_string_length:
  "lex_string cs = Some (str, rest) \<Longrightarrow> length rest < Suc (length cs)"
proof (induction cs arbitrary: str rest rule: lex_string.induct)
  case 1
  then show ?case by simp
next
  case (2 c cs)
  then show ?case
    by (fastforce split: if_splits list.splits option.splits)
qed

lemma lex_fraction_length:
  "lex_fraction s = Some (fp, rest) \<Longrightarrow> length rest \<le> length s"
  by (auto simp: lex_fraction_def le_SucI length_dropWhile_le split: list.splits if_splits)

lemma lex_exponent_length:
  assumes a: "lex_exponent s = Some (e, rest)"
  shows "length rest \<le> length s"
proof -
  have d: "\<And>xs. length (dropWhile digit xs) \<le> length xs"
    by (rule length_dropWhile_le)
  show ?thesis
  proof (cases s)
    case Nil
    with a show ?thesis by (simp add: lex_exponent_def)
  next
    case s: (Cons c r)
    show ?thesis
    proof (cases r)
      case Nil
      with a s show ?thesis
        by (auto simp: lex_exponent_def Let_def split: if_splits)
    next
      case (Cons d t)
      have "length (dropWhile digit t) \<le> Suc (Suc (length t))"
        using d [of t] by simp
      moreover have "length (dropWhile digit (d # t)) \<le> Suc (Suc (length t))"
        using d [of "d # t"] by simp
      ultimately show ?thesis
        using a s Cons
        by (auto simp: lex_exponent_def Let_def split: if_splits)
    qed
  qed
qed

lemma lex_number_rest:
  assumes "lex_number s = Some (n, rest)"
  shows "\<exists>s1 fp s3 e. length s1 \<le> length s \<and> takeWhile digit s1 \<noteq> []
           \<and> lex_fraction (dropWhile digit s1) = Some (fp, s3)
           \<and> lex_exponent s3 = Some (e, rest)"
proof -
  define s1 where "s1 = (if (case s of [] \<Rightarrow> False | c # _ \<Rightarrow> c = CHR ''-'') then tl s else s)"
  have l: "length s1 \<le> length s"
    by (simp add: s1_def)
  from assms have ip: "takeWhile digit s1 \<noteq> []"
    unfolding lex_number_def Let_def s1_def [symmetric] by (simp split: if_splits)
  from assms obtain fp s3 where f: "lex_fraction (dropWhile digit s1) = Some (fp, s3)"
    unfolding lex_number_def Let_def s1_def [symmetric]
    by (simp split: if_splits option.splits prod.splits)
  with assms obtain e where "lex_exponent s3 = Some (e, rest)"
    unfolding lex_number_def Let_def s1_def [symmetric]
    by (simp split: if_splits option.splits prod.splits)
  with l ip f show ?thesis by blast
qed

lemma lex_number_length:
  assumes "lex_number s = Some (n, rest)"
  shows "length rest < length s"
proof -
  from lex_number_rest [OF assms] obtain s1 fp s3 e where
    l: "length s1 \<le> length s" and ip: "takeWhile digit s1 \<noteq> []" and
    f: "lex_fraction (dropWhile digit s1) = Some (fp, s3)" and
    x: "lex_exponent s3 = Some (e, rest)"
    by blast
  have "length (dropWhile digit s1) < length s1"
    using ip by (cases s1) (auto simp: le_imp_less_Suc length_dropWhile_le split: if_splits)
  then show ?thesis
    using l lex_fraction_length [OF f] lex_exponent_length [OF x] by linarith
qed

lemma lex_step_cases:
  assumes "lex_step c cs = Some (ts, rest)"
  shows "rest = cs \<or> (\<exists>str. lex_string cs = Some (str, rest))
           \<or> (\<exists>n. lex_number (c # cs) = Some (n, rest))
           \<or> rest = drop 3 cs \<or> rest = drop 4 cs"
proof (cases "c = CHR 0x22")
  case True
  with assms show ?thesis
    by (auto simp add: lex_step_def json_space_def)
next
  case q: False
  show ?thesis
  proof (cases "c = CHR ''-'' \<or> digit c")
    case True
    with assms q show ?thesis
      by (simp add: lex_step_def split: if_split_asm) blast
  next
    case False
    with assms q show ?thesis
      by (simp add: lex_step_def split: if_split_asm)
  qed
qed

lemma lex_step_length:
  assumes "lex_step c cs = Some (ts, rest)"
  shows "length rest < Suc (length cs)"
  using lex_step_cases [OF assms]
  by (auto dest: lex_string_length lex_number_length)

function lex :: "string \<Rightarrow> token list option" where
  "lex [] = Some []"
| "lex (c # cs) =
     (case lex_step c cs of
        None \<Rightarrow> None
      | Some (ts, rest) \<Rightarrow> map_option (append ts) (lex rest))"
  by pat_completeness simp_all
termination
proof (relation "measure length")
  show "wf (measure length)" by simp
next
  fix c cs x ts rest
  assume "lex_step c cs = Some x" and "(ts, rest) = x"
  then show "(rest, c # cs) \<in> measure length"
    by (auto dest: lex_step_length)
qed

text \<open>
  The parser. A frame is a container that is still open: an array with the elements read
  so far, or an object with the members read so far and the key that waits for its value.
  \<^verbatim>\<open>JSON.parse\<close> defines each member with \<^verbatim>\<open>CreateDataProperty\<close>, so a repeated key
  keeps its place and takes the later value. (The enumeration order of integer-like keys
  is not modelled.)
\<close>

fun define_property :: "string \<Rightarrow> js_value \<Rightarrow> (string \<times> js_value) list \<Rightarrow> (string \<times> js_value) list" where
  "define_property k v [] = [(k, v)]"
| "define_property k v ((k', v') # ms) =
     (if k = k' then (k, v) # ms else (k', v') # define_property k v ms)"

datatype frame =
    ArrayFrame "js_value list"
  | ObjectFrame "(string \<times> js_value) list" string

text \<open>What the grammar allows next.\<close>

datatype expect =
    AValue           \<comment> \<open>at the start, after a comma in an array, after a colon\<close>
  | AValueOrClose    \<comment> \<open>after an opening bracket\<close>
  | AKey             \<comment> \<open>after a comma in an object\<close>
  | AKeyOrClose      \<comment> \<open>after an opening brace\<close>
  | AColon           \<comment> \<open>after a key\<close>
  | ACommaOrClose    \<comment> \<open>after a value inside a container\<close>

datatype pstate = Reading expect "frame list" | Done js_value

text \<open>A value is complete: it is the result, or it goes into the innermost open container.\<close>

fun complete :: "js_value \<Rightarrow> frame list \<Rightarrow> pstate" where
  "complete v [] = Done v"
| "complete v (ArrayFrame xs # st) = Reading ACommaOrClose (ArrayFrame (xs @ [v]) # st)"
| "complete v (ObjectFrame ms k # st) =
     Reading ACommaOrClose (ObjectFrame (define_property k v ms) k # st)"

fun close_array :: "frame list \<Rightarrow> pstate option" where
  "close_array (ArrayFrame xs # st) = Some (complete (VArray xs) st)"
| "close_array _ = None"

fun close_object :: "frame list \<Rightarrow> pstate option" where
  "close_object (ObjectFrame ms k # st) = Some (complete (VObject ms) st)"
| "close_object _ = None"

fun begin_value :: "token \<Rightarrow> frame list \<Rightarrow> pstate option" where
  "begin_value (Scalar v) st = Some (complete v st)"
| "begin_value LBracket st = Some (Reading AValueOrClose (ArrayFrame [] # st))"
| "begin_value LBrace st = Some (Reading AKeyOrClose (ObjectFrame [] [] # st))"
| "begin_value _ st = None"

fun read_key :: "token \<Rightarrow> frame list \<Rightarrow> pstate option" where
  "read_key (Scalar (VString k)) (ObjectFrame ms _ # st) = Some (Reading AColon (ObjectFrame ms k # st))"
| "read_key _ _ = None"

fun parse_step :: "pstate \<Rightarrow> token \<Rightarrow> pstate option" where
  "parse_step (Done v) t = None"
| "parse_step (Reading AValue st) t = begin_value t st"
| "parse_step (Reading AValueOrClose st) t =
     (if t = RBracket then close_array st else begin_value t st)"
| "parse_step (Reading AKey st) t = read_key t st"
| "parse_step (Reading AKeyOrClose st) t =
     (if t = RBrace then close_object st else read_key t st)"
| "parse_step (Reading AColon st) t =
     (if t = Colon then Some (Reading AValue st) else None)"
| "parse_step (Reading ACommaOrClose st) t =
     (if t = Comma then
        (case st of
           [] \<Rightarrow> None
         | ArrayFrame _ # _ \<Rightarrow> Some (Reading AValue st)
         | ObjectFrame _ _ # _ \<Rightarrow> Some (Reading AKey st))
      else if t = RBracket then close_array st
      else if t = RBrace then close_object st
      else None)"

fun parse_tokens :: "pstate \<Rightarrow> token list \<Rightarrow> pstate option" where
  "parse_tokens p [] = Some p"
| "parse_tokens p (t # ts) =
     (case parse_step p t of None \<Rightarrow> None | Some p' \<Rightarrow> parse_tokens p' ts)"

text \<open>The value a text denotes, when it is a JSON text.\<close>

definition json_value :: "string \<Rightarrow> js_value option" where
  "json_value text =
     (case lex text of
        None \<Rightarrow> None
      | Some ts \<Rightarrow>
          (case parse_tokens (Reading AValue []) ts of
             Some (Done v) \<Rightarrow> Some v
           | _ \<Rightarrow> None))"

text \<open>
  The message of the \<^verbatim>\<open>SyntaxError\<close> is the engine's own wording and differs between
  engines. It is a parameter of the model: \<open>engine text\<close> is the message for the rejected
  \<open>text\<close>.
\<close>

type_synonym engine = "string \<Rightarrow> string"

definition JSON_parse :: "engine \<Rightarrow> string \<Rightarrow> thrown + js_value" where
  "JSON_parse engine text =
     (case json_value text of
        None \<Rightarrow> Inl (SyntaxError (engine text))
      | Some v \<Rightarrow> Inr v)"

subsection \<open>Property assignment on the payload object\<close>

text \<open>
  \<^verbatim>\<open>runPrompt\<close> starts from the object literal \<^verbatim>\<open>{}\<close> and fills it with
  \<^verbatim>\<open>variables[k] = v\<close>. The object has its own properties and a prototype, at first
  \<^verbatim>\<open>Object.prototype\<close>. Assignment follows ECMA-262 \<^verbatim>\<open>OrdinarySet\<close>: it walks the
  prototype chain for a property named \<open>k\<close>. Every property found there is a writable data
  property, and the assignment then defines an own property of the object, except for the
  accessor \<^verbatim>\<open>__proto__\<close> of \<^verbatim>\<open>Object.prototype\<close> (ECMA-262, B.2.2.1): its setter
  defines no property; it replaces the prototype when the value is an object or null and
  does nothing for any other value.
\<close>

datatype prototype =
    ObjectPrototype          \<comment> \<open>\<^verbatim>\<open>Object.prototype\<close>, the prototype of \<^verbatim>\<open>{}\<close>\<close>
  | NullPrototype
  | ValuePrototype js_value  \<comment> \<open>an array or object that \<^verbatim>\<open>JSON.parse\<close> returned\<close>

record js_object =
  own :: "(string \<times> js_value) list"
  proto :: prototype

definition empty_object :: js_object where
  "empty_object = \<lparr>own = [], proto = ObjectPrototype\<rparr>"

definition has_own :: "(string \<times> js_value) list \<Rightarrow> string \<Rightarrow> bool" where
  "has_own ms k = (map_of ms k \<noteq> None)"

text \<open>
  Whether the search for \<^verbatim>\<open>__proto__\<close> ends at the accessor of \<^verbatim>\<open>Object.prototype\<close>:
  the object has no own property of that name, and neither has the value that was made its
  prototype (the prototype of a parsed array or object is \<^verbatim>\<open>Array.prototype\<close> or
  \<^verbatim>\<open>Object.prototype\<close>, and both lead to the accessor).
\<close>

definition reaches_proto_setter :: "js_object \<Rightarrow> bool" where
  "reaches_proto_setter obj =
     (\<not> has_own (own obj) ''__proto__'' \<and>
      (case proto obj of
         ObjectPrototype \<Rightarrow> True
       | NullPrototype \<Rightarrow> False
       | ValuePrototype (VObject ms) \<Rightarrow> \<not> has_own ms ''__proto__''
       | ValuePrototype _ \<Rightarrow> True))"

definition proto_setter :: "js_object \<Rightarrow> js_value \<Rightarrow> js_object" where
  "proto_setter obj v =
     (case v of
        VArray _ \<Rightarrow> obj\<lparr>proto := ValuePrototype v\<rparr>
      | VObject _ \<Rightarrow> obj\<lparr>proto := ValuePrototype v\<rparr>
      | VNull \<Rightarrow> obj\<lparr>proto := NullPrototype\<rparr>
      | _ \<Rightarrow> obj)"

definition assign :: "js_object \<Rightarrow> string \<Rightarrow> js_value \<Rightarrow> js_object" where
  "assign obj k v =
     (if k = ''__proto__'' \<and> reaches_proto_setter obj then proto_setter obj v
      else obj\<lparr>own := define_property k v (own obj)\<rparr>)"

text \<open>Reading an own property, as \<^verbatim>\<open>Object.entries\<close> and \<^verbatim>\<open>JSON.stringify\<close> see it.\<close>

definition get_own :: "js_object \<Rightarrow> string \<Rightarrow> js_value option" where
  "get_own obj k = map_of (own obj) k"

subsection \<open>The variable editor\<close>

datatype VariableType = TString | TNumber | TBoolean | TList | TObject

record VariableField =
  key :: string
  type :: VariableType
  "value" :: string
  boolValue :: bool
  parseError :: "string option"

definition addVariableField :: "VariableField list \<Rightarrow> VariableField list" where
  "addVariableField variableFields =
     variableFields @
       [\<lparr>key = '''', type = TString, value = '''', boolValue = False, parseError = None\<rparr>]"

definition removeVariableField :: "VariableField list \<Rightarrow> nat \<Rightarrow> VariableField list" where
  "removeVariableField variableFields index =
     map snd (filter (\<lambda>(i, _). i \<noteq> index) (enumerate 0 variableFields))"

text \<open>
  The arguments \<^verbatim>\<open>field\<close> and \<^verbatim>\<open>value\<close> of \<^verbatim>\<open>updateVariableField\<close>, in the four
  combinations its callers use.
\<close>

datatype field_update =
    SetKey string
  | SetValue string
  | SetType VariableType
  | SetBoolValue bool

text \<open>The body of \<^verbatim>\<open>updateVariableField\<close> on the row \<^verbatim>\<open>updated[index]\<close>.\<close>

fun update_row :: "engine \<Rightarrow> VariableField \<Rightarrow> field_update \<Rightarrow> VariableField" where
  "update_row engine row (SetType newType) =
     (if newType = TBoolean then
        row\<lparr>type := newType, boolValue := False, value := '''', parseError := None\<rparr>
      else if newType = TList \<or> newType = TObject then
        row\<lparr>type := newType, value := (if newType = TList then ''[]'' else ''{}''),
            parseError := None\<rparr>
      else row\<lparr>type := newType, value := '''', parseError := None\<rparr>)"
| "update_row engine row (SetBoolValue b) = row\<lparr>boolValue := b\<rparr>"
| "update_row engine row (SetKey k) = row\<lparr>key := k\<rparr>"
| "update_row engine row (SetValue v) =
     (if type row = TList \<or> type row = TObject then
        (case JSON_parse engine v of
           Inr _ \<Rightarrow> row\<lparr>value := v, parseError := None\<rparr>
         | Inl _ \<Rightarrow> row\<lparr>value := v, parseError := Some ''Invalid JSON''\<rparr>)
      else row\<lparr>value := v\<rparr>)"

text \<open>
  \<^verbatim>\<open>updateVariableField\<close> returns the list it hands to \<^verbatim>\<open>setVariableFields\<close>. With an
  index outside the list \<^verbatim>\<open>updated[index]\<close> is \<^verbatim>\<open>undefined\<close>, the first access throws a
  \<^verbatim>\<open>TypeError\<close> and nothing is set: \<open>None\<close>.
\<close>

definition updateVariableField ::
  "engine \<Rightarrow> VariableField list \<Rightarrow> nat \<Rightarrow> field_update \<Rightarrow> VariableField list option" where
  "updateVariableField engine variableFields index u =
     (if index < length variableFields
      then Some (variableFields[index := update_row engine (variableFields ! index) u])
      else None)"

subsection \<open>Conversion\<close>

text \<open>
  \<^verbatim>\<open>parseVariableValue\<close>, one case for each \<^verbatim>\<open>VariableType\<close> (the \<^verbatim>\<open>default\<close> branch of
  the \<^verbatim>\<open>switch\<close> is not reached for a value of that type). In the list and object cases
  the \<^verbatim>\<open>throw\<close> of the type check stands inside the \<^verbatim>\<open>try\<close>, so the \<^verbatim>\<open>catch\<close> wraps
  its error like a \<^verbatim>\<open>SyntaxError\<close> of \<^verbatim>\<open>JSON.parse\<close>.
\<close>

definition parseVariableValue ::
  "engine \<Rightarrow> VariableType \<Rightarrow> string \<Rightarrow> bool \<Rightarrow> thrown + js_value" where
  "parseVariableValue engine t v b =
     (case t of
        TString \<Rightarrow> Inr (VString v)
      | TNumber \<Rightarrow>
          (let parsed = parseFloat v
           in if isNaN parsed then Inl (Error (''Invalid number: '' @ v))
              else Inr (VNumber parsed))
      | TBoolean \<Rightarrow> Inr (VBoolean b)
      | TList \<Rightarrow>
          (case (case JSON_parse engine v of
                   Inl e \<Rightarrow> Inl e
                 | Inr parsed \<Rightarrow>
                     if \<not> Array_isArray parsed then Inl (Error ''Value must be an array'')
                     else Inr parsed) of
             Inl e \<Rightarrow> Inl (Error (''Invalid list JSON: '' @ message_or e ''Unknown error''))
           | Inr parsed \<Rightarrow> Inr parsed)
      | TObject \<Rightarrow>
          (case (case JSON_parse engine v of
                   Inl e \<Rightarrow> Inl e
                 | Inr parsed \<Rightarrow>
                     if Array_isArray parsed \<or> typeof parsed \<noteq> ''object''
                     then Inl (Error ''Value must be an object'')
                     else Inr parsed) of
             Inl e \<Rightarrow> Inl (Error (''Invalid object JSON: '' @ message_or e ''Unknown error''))
           | Inr parsed \<Rightarrow> Inr parsed))"

text \<open>
  The loop of \<^verbatim>\<open>runPrompt\<close> over \<^verbatim>\<open>variableFields\<close>, from the object built so far. A row
  whose trimmed key is empty is passed over; a failed conversion ends the loop with the
  wrapped error.
\<close>

definition convert :: "engine \<Rightarrow> VariableField \<Rightarrow> thrown + js_value" where
  "convert engine field = parseVariableValue engine (type field) (value field) (boolValue field)"

fun buildVariables :: "engine \<Rightarrow> js_object \<Rightarrow> VariableField list \<Rightarrow> thrown + js_object" where
  "buildVariables engine vars [] = Inr vars"
| \<open>buildVariables engine vars (field # rest) =
     (if trim (key field) \<noteq> [] then
        (case convert engine field of
           Inl err \<Rightarrow>
             Inl (Error (''Error parsing variable "'' @ key field @ ''": ''
                           @ message_or err ''Unknown error''))
         | Inr v \<Rightarrow> buildVariables engine (assign vars (trim (key field)) v) rest)
      else buildVariables engine vars rest)\<close>

subsection \<open>The page state and the run\<close>

text \<open>
  The state variables of the component. The type \<open>'r\<close> is the client's
  \<^verbatim>\<open>RunPromptResponse\<close>, which the page stores and displays but never inspects.
  \<^verbatim>\<open>widgetKey\<close> counts up from 0 by 1, so a natural number stands for it (a double is
  exact up to \<open>2^53\<close>).
\<close>

record 'r page =
  promptResponse :: "'r option"
  feedbackIds :: "string list"
  widgetKey :: nat
  error :: "string option"
  isRunning :: bool
  variableFields :: "VariableField list"
  showRenderedPrompt :: bool
  showRunPrompt :: bool
  copiedRunId :: bool
  copiedOutput :: bool

record RunPromptFormData =
  apiKey :: string
  promptSlug :: string
  variables :: "(string \<times> string) list"

text \<open>
  What \<^verbatim>\<open>runPrompt\<close> does, in the order it does it: calls of the state setters, and the
  one call of the remote client, \<^verbatim>\<open>new CobblAdminClient({apiKey, baseUrl}).runPrompt(slug,
  variables)\<close>, recorded with its four arguments.
\<close>

datatype 'r effect =
    SetIsRunning bool
  | SetError "string option"
  | SetPromptResponse "'r option"
  | SetFeedbackIds "string list"
  | SetWidgetKey nat
  | SetShowRunPrompt bool
  | ClientRunPrompt string string string js_object

text \<open>
  The remote client is outside the repository: a parameter that gives, for the arguments
  of the call, the response it resolves to or the value it rejects with.
\<close>

type_synonym 'r client = "string \<Rightarrow> string \<Rightarrow> string \<Rightarrow> js_object \<Rightarrow> thrown + 'r"

text \<open>
  \<open>baseUrl\<close> is \<^verbatim>\<open>process.env.NEXT_PUBLIC_EXTERNAL_API_URL\<close>, \<open>None\<close> when it is
  undefined. \<^verbatim>\<open>!baseUrl\<close> holds for undefined and for the empty string; \<open>configured\<close>
  gives the URL in the other case.
\<close>

definition configured :: "string option \<Rightarrow> string option" where
  "configured baseUrl =
     (case baseUrl of
        None \<Rightarrow> None
      | Some url \<Rightarrow> if url = [] then None else Some url)"

text \<open>The \<^verbatim>\<open>try\<close> block: the effects it performs and the value it throws, if any.\<close>

definition try_block ::
  "engine \<Rightarrow> string option \<Rightarrow> 'r client \<Rightarrow> RunPromptFormData \<Rightarrow> VariableField list
     \<Rightarrow> 'r effect list \<times> thrown option" where
  "try_block engine baseUrl client data rows =
     (case buildVariables engine empty_object rows of
        Inl err \<Rightarrow> ([], Some err)
      | Inr vars \<Rightarrow>
          (case configured baseUrl of
             None \<Rightarrow> ([], Some (Error ''NEXT_PUBLIC_EXTERNAL_API_URL is not configured''))
           | Some url \<Rightarrow>
               (case client (apiKey data) url (promptSlug data) vars of
                  Inl err \<Rightarrow>
                    ([ClientRunPrompt (apiKey data) url (promptSlug data) vars], Some err)
                | Inr result \<Rightarrow>
                    ([ClientRunPrompt (apiKey data) url (promptSlug data) vars,
                      SetPromptResponse (Some result),
                      SetShowRunPrompt False], None))))"

definition runPrompt ::
  "engine \<Rightarrow> string option \<Rightarrow> 'r client \<Rightarrow> RunPromptFormData \<Rightarrow> VariableField list
     \<Rightarrow> 'r effect list" where
  "runPrompt engine baseUrl client data rows =
     [SetIsRunning True, SetError None, SetPromptResponse None, SetFeedbackIds [],
      SetWidgetKey 0]
     @ (case try_block engine baseUrl client data rows of
          (effects, None) \<Rightarrow> effects
        | (effects, Some err) \<Rightarrow>
            effects @ [SetError (Some (message_or err ''An unknown error occurred''))])
     @ [SetIsRunning False]"

fun perform :: "'r page \<Rightarrow> 'r effect \<Rightarrow> 'r page" where
  "perform s (SetIsRunning b) = s\<lparr>isRunning := b\<rparr>"
| "perform s (SetError e) = s\<lparr>error := e\<rparr>"
| "perform s (SetPromptResponse r) = s\<lparr>promptResponse := r\<rparr>"
| "perform s (SetFeedbackIds ids) = s\<lparr>feedbackIds := ids\<rparr>"
| "perform s (SetWidgetKey k) = s\<lparr>widgetKey := k\<rparr>"
| "perform s (SetShowRunPrompt b) = s\<lparr>showRunPrompt := b\<rparr>"
| "perform s (ClientRunPrompt k u slug vars) = s"

text \<open>
  The page after a submission: the effects of the run, performed in order. The awaited
  call is the only point where the run is suspended; every setter of the run writes a
  value that does not depend on the state, so the run is taken as one step.
\<close>

definition submit ::
  "engine \<Rightarrow> string option \<Rightarrow> 'r client \<Rightarrow> RunPromptFormData \<Rightarrow> 'r page \<Rightarrow> 'r page" where
  "submit engine baseUrl client data s =
     foldl perform s (runPrompt engine baseUrl client data (variableFields s))"

fun is_client_call :: "'r effect \<Rightarrow> bool" where
  "is_client_call (ClientRunPrompt k u slug vars) = True"
| "is_client_call _ = False"

subsection \<open>The feedback widget's callbacks\<close>

definition onSuccess :: "string \<Rightarrow> 'r page \<Rightarrow> 'r page" where
  "onSuccess feedbackId s =
     s\<lparr>feedbackIds := feedbackIds s @ [feedbackId], widgetKey := widgetKey s + 1\<rparr>"

definition onError :: "string \<Rightarrow> 'r page \<Rightarrow> 'r page" where
  "onError message s = s\<lparr>error := Some message\<rparr>"

text \<open>
  A sequence of successful feedback submissions: the page after them, and the key under
  which the widget was mounted when each one was made.
\<close>

fun submissions :: "string list \<Rightarrow> 'r page \<Rightarrow> 'r page" where
  "submissions [] s = s"
| "submissions (feedbackId # ids) s = submissions ids (onSuccess feedbackId s)"

fun mount_keys :: "string list \<Rightarrow> 'r page \<Rightarrow> nat list" where
  "mount_keys [] s = []"
| "mount_keys (feedbackId # ids) s = widgetKey s # mount_keys ids (onSuccess feedbackId s)"

text \<open>One engine and one client, for the concrete examples below.\<close>

definition sample_engine :: engine where
  "sample_engine text = ''Unexpected token''"

definition sample_client :: "string client" where
  "sample_client k u slug vars = Inr ''run-1''"

section \<open>Properties\<close>

subsection \<open>The Number value of a decimal literal\<close>

text \<open>
  \<open>ilog2\<close> is the binary exponent, so \<open>to_double\<close> rounds to the doubles around its
  argument: it is exact on the integers below \<open>2 ^ 53\<close>, gives the infinity from \<open>2 ^ 1024\<close>
  on, and is never NaN.
\<close>

lemma bit_length_bounds:
  "0 < n \<Longrightarrow> \<exists>a. bit_length n = Suc a \<and> 2 ^ a \<le> n \<and> n < 2 ^ Suc a"
proof (induction n rule: bit_length.induct)
  case (1 n)
  show ?case
  proof (cases "n div 2 \<le> 0")
    case True
    with "1.prems" have "n = 1" by linarith
    then show ?thesis by (simp add: bit_length.simps [of 1] bit_length.simps [of 0])
  next
    case False
    with "1.IH" "1.prems" obtain a where
      a: "bit_length (n div 2) = Suc a" "2 ^ a \<le> n div 2" "n div 2 < 2 ^ Suc a"
      by auto
    from a(2) have "2 ^ Suc a \<le> n" by auto
    moreover from a(3) have "n < 2 ^ Suc (Suc a)" by auto
    moreover from "1.prems" a(1) have "bit_length n = Suc (Suc a)"
      by (simp add: bit_length.simps [of n])
    ultimately show ?thesis by blast
  qed
qed

lemma pow2_diff: "(2::rat) powi (int m - int n) = 2 ^ m / 2 ^ n"
  by (simp add: power_int_diff)

lemma ilog2_bracket:
  assumes "0 < q"
  shows "2 powi ilog2 q \<le> q \<and> q < 2 powi (ilog2 q + 1)"
proof -
  define n where "n = fst (quotient_of q)"
  define d where "d = snd (quotient_of q)"
  have d: "0 < d" by (simp add: d_def quotient_of_denom_pos')
  have q: "q = of_int n / of_int d"
    by (rule quotient_of_div) (simp add: n_def d_def)
  with assms d have n: "0 < n"
    by (simp add: zero_less_divide_iff)
  from bit_length_bounds [OF n] obtain a where
    a: "bit_length n = Suc a" "2 ^ a \<le> n" "n < 2 ^ Suc a" by blast
  from bit_length_bounds [OF d] obtain b where
    b: "bit_length d = Suc b" "2 ^ b \<le> d" "d < 2 ^ Suc b" by blast
  let ?N = "of_int n :: rat" and ?D = "of_int d :: rat"
  have cast: "(2::rat) ^ m \<le> of_int i \<longleftrightarrow> 2 ^ m \<le> i"
    "of_int i < (2::rat) ^ m \<longleftrightarrow> i < 2 ^ m" for m i
    by simp_all
  have N: "2 ^ a \<le> ?N" "?N < 2 ^ Suc a"
    using a(2,3) by (simp_all only: cast)
  have D: "2 ^ b \<le> ?D" "?D < 2 ^ Suc b" "0 < ?D"
    using b(2,3) d by (simp_all only: cast of_int_0_less_iff)
  define k where "k = int (Suc a) - int (Suc b)"
  have k: "ilog2 q = (if 2 powi k \<le> q then k else k - 1)"
    by (simp add: ilog2_def Let_def k_def a(1) b(1) flip: n_def d_def)
  have up: "q < 2 powi (k + 1)"
  proof -
    have "k + 1 = int (Suc a) - int b" by (simp add: k_def)
    then have "2 powi (k + 1) = (2::rat) ^ Suc a / 2 ^ b"
      by (simp only: pow2_diff)
    moreover have "?N / ?D < 2 ^ Suc a / 2 ^ b"
      using N D n by (intro frac_less) simp_all
    ultimately show ?thesis by (simp add: q)
  qed
  have low: "2 powi (k - 1) \<le> q"
  proof -
    have "k - 1 = int a - int (Suc b)" by (simp add: k_def)
    then have "2 powi (k - 1) = (2::rat) ^ a / 2 ^ Suc b"
      by (simp only: pow2_diff)
    moreover have "2 ^ a / 2 ^ Suc b \<le> ?N / ?D"
      using N D n by (intro frac_le) simp_all
    ultimately show ?thesis by (simp add: q)
  qed
  show ?thesis
  proof (cases "2 powi k \<le> q")
    case True
    with k up show ?thesis by simp
  next
    case False
    with k low show ?thesis by simp
  qed
qed

lemma pow2_less_imp_less:
  assumes "(2::rat) powi m < 2 powi n"
  shows "m < n"
proof (rule ccontr)
  assume "\<not> m < n"
  then have "(2::rat) powi n \<le> 2 powi m"
    by (intro power_int_increasing) simp_all
  with assms show False by simp
qed

lemma bracket_unique:
  assumes "2 powi e \<le> (q::rat)" "q < 2 powi (e + 1)" "2 powi e' \<le> q" "q < 2 powi (e' + 1)"
  shows "e = e'"
proof -
  have "(2::rat) powi e < 2 powi (e' + 1)" using assms by linarith
  then have "e < e' + 1" by (rule pow2_less_imp_less)
  have "(2::rat) powi e' < 2 powi (e + 1)" using assms by linarith
  then have "e' < e + 1" by (rule pow2_less_imp_less)
  with \<open>e < e' + 1\<close> show ?thesis by simp
qed

lemma ilog2_eq:
  assumes "0 < q" "2 powi e \<le> q" "q < 2 powi (e + 1)"
  shows "ilog2 q = e"
  using ilog2_bracket [OF assms(1)] assms(2,3) by (auto intro: bracket_unique)

lemma round_half_even_near:
  assumes "of_int m - 1 / 2 < x" "x < of_int m + 1 / 2"
  shows "round_half_even x = m"
proof (cases "of_int m \<le> x")
  case True
  with assms have "\<lfloor>x\<rfloor> = m" by (intro floor_unique) linarith+
  with assms show ?thesis by (simp add: round_half_even_def Let_def)
next
  case False
  have "rat_of_int (m - 1) = of_int m - 1" by simp
  with assms False have "\<lfloor>x\<rfloor> = m - 1" by (intro floor_unique) linarith+
  moreover have "x - rat_of_int (m - 1) = x - of_int m + 1" by simp
  ultimately show ?thesis
    using assms False by (simp add: round_half_even_def Let_def)
qed

lemma round_half_even_of_int: "round_half_even (of_int m) = m"
  by (rule round_half_even_near) simp_all

lemma round_half_even_tie:
  "round_half_even (of_int f + 1 / 2) = (if even f then f else f + 1)"
proof -
  have "\<lfloor>of_int f + (1 / 2 :: rat)\<rfloor> = f" by (intro floor_unique) simp_all
  then show ?thesis by (simp add: round_half_even_def Let_def)
qed

lemma floor_le_round_half_even: "\<lfloor>x\<rfloor> \<le> round_half_even x"
  by (simp add: round_half_even_def Let_def)

lemma to_double_not_NaN: "\<not> isNaN (to_double q)"
  by (simp add: to_double_def Let_def)

text \<open>
  The double of \<open>q\<close>, from its binary exponent \<open>e\<close> and the multiple \<open>m\<close> of the distance
  \<open>2 powi p\<close> that it rounds to.
\<close>

lemma to_double_round:
  assumes "0 < q" "2 powi e \<le> q" "q < 2 powi (e + 1)"
    and "p = max e (- 1022) - 52"
    and "round_half_even (q / 2 powi p) = m"
    and "of_int m * 2 powi p < (2::rat) ^ 1024"
  shows "to_double q = Finite (of_int m * 2 powi p)"
proof -
  have "ilog2 q = e" using assms(1-3) by (rule ilog2_eq)
  then show ?thesis
    using assms(1,4,5,6) by (simp add: to_double_def Let_def)
qed

lemma pow2_split: "(2::rat) powi e = 2 ^ 52 * 2 powi (e - 52)"
  using power_int_add [of "2::rat" 52 "e - 52"] by simp

text \<open>A value of \<open>2 ^ 1024\<close> or more has no double: it becomes the infinity.\<close>

lemma to_double_overflow:
  assumes "2 ^ 1024 \<le> q"
  shows "to_double q = PosInfinity"
proof -
  have pos: "0 < q" using assms by (rule less_le_trans [rotated]) simp
  define e where "e = ilog2 q"
  define p where "p = max e (- 1022) - 52"
  from ilog2_bracket [OF pos] have b: "2 powi e \<le> q" "q < 2 powi (e + 1)"
    by (simp_all add: e_def)
  have "(2::rat) powi 1024 < 2 powi (e + 1)"
    using assms b(2) by simp
  then have e: "1024 \<le> e"
    by (drule_tac pow2_less_imp_less) simp
  then have p: "p = e - 52" by (simp add: p_def)
  have "(2::rat) powi e = 2 ^ 52 * 2 powi p"
    unfolding p by (rule pow2_split)
  then have "(2::rat) ^ 52 * 2 powi p \<le> q" using b(1) by (simp only:)
  then have "(2::rat) ^ 52 \<le> q / 2 powi p"
    by (simp add: pos_le_divide_eq)
  then have "of_int (2 ^ 52) \<le> q / 2 powi p" by simp
  then have "2 ^ 52 \<le> \<lfloor>q / 2 powi p\<rfloor>"
    by (simp only: le_floor_iff)
  then have "2 ^ 52 \<le> round_half_even (q / 2 powi p)"
    using floor_le_round_half_even [of "q / 2 powi p"] by linarith
  then have "(of_int (2 ^ 52) :: rat) \<le> of_int (round_half_even (q / 2 powi p))"
    by (simp only: of_int_le_iff)
  then have "(2::rat) ^ 52 * 2 powi p \<le> of_int (round_half_even (q / 2 powi p)) * 2 powi p"
    by (intro mult_right_mono) simp_all
  moreover have "(2::rat) ^ 1024 \<le> 2 ^ 52 * 2 powi p"
  proof -
    have "(2::rat) powi 1024 \<le> 2 powi e" using e by (intro power_int_increasing) simp_all
    also have "\<dots> = 2 ^ 52 * 2 powi p" unfolding p by (rule pow2_split)
    finally show ?thesis by (simp only: power_int_numeral)
  qed
  ultimately have "(2::rat) ^ 1024 \<le> of_int (round_half_even (q / 2 powi p)) * 2 powi p"
    by (rule order_trans [rotated])
  then show ?thesis
    using pos by (simp add: to_double_def Let_def flip: e_def p_def)
qed

text \<open>An integer below \<open>2 ^ 53\<close> is a double.\<close>

lemma to_double_int:
  assumes "0 \<le> n" "n < 2 ^ 53"
  shows "to_double (of_int n) = Finite (of_int n)"
proof (cases "n = 0")
  case True
  then show ?thesis by (simp add: to_double_def)
next
  case False
  with assms have pos: "0 < (of_int n :: rat)" by simp
  define e where "e = ilog2 (of_int n)"
  define p where "p = max e (- 1022) - 52"
  from ilog2_bracket [OF pos] have b: "2 powi e \<le> (of_int n :: rat)" "(of_int n :: rat) < 2 powi (e + 1)"
    by (simp_all add: e_def)
  have "(1::rat) \<le> of_int n" using False assms by simp
  with b(2) have "(2::rat) powi 0 < 2 powi (e + 1)" by simp
  then have e0: "0 \<le> e" by (drule_tac pow2_less_imp_less) simp
  have "(of_int n :: rat) < 2 ^ 53" using assms(2) by simp
  then have "(of_int n :: rat) < 2 powi 53" by (simp only: power_int_numeral)
  with b(1) have "(2::rat) powi e < 2 powi 53" by linarith
  then have e53: "e < 53" by (rule pow2_less_imp_less)
  from e0 e53 have p: "p = e - 52" "p \<le> 0" by (simp_all add: p_def)
  define s where "s = nat (- p)"
  have "p = - int s" using p(2) by (simp add: s_def)
  then have pw: "(2::rat) powi p = inverse (2 ^ s)"
    by (simp only: power_int_minus power_int_of_nat)
  have "of_int n / (2::rat) powi p = of_int n * 2 ^ s"
    unfolding pw by (simp only: divide_inverse inverse_inverse_eq)
  also have "\<dots> = of_int (n * 2 ^ s)"
    by (simp only: of_int_mult of_int_power of_int_numeral)
  finally have "round_half_even (of_int n / 2 powi p) = n * 2 ^ s"
    by (simp only: round_half_even_of_int)
  then have "of_int (round_half_even (of_int n / 2 powi p)) * 2 powi p
               = (of_int n :: rat) * (2 ^ s * inverse (2 ^ s))"
    unfolding pw by (simp only: of_int_mult of_int_power of_int_numeral mult.assoc)
  also have "\<dots> = of_int n"
    by simp
  finally have r: "of_int (round_half_even (of_int n / 2 powi p)) * 2 powi p = (of_int n :: rat)" .
  have "(of_int n :: rat) < 2 ^ 53"
    using assms(2) by simp
  also have "(2::rat) ^ 53 < 2 ^ 1024"
    by (rule power_strict_increasing) simp_all
  finally have small: "\<not> (2::rat) ^ 1024 \<le> of_int n"
    by simp
  have "to_double (of_int n) =
          (if (2::rat) ^ 1024 \<le> of_int (round_half_even (of_int n / 2 powi p)) * 2 powi p
           then PosInfinity
           else Finite (of_int (round_half_even (of_int n / 2 powi p)) * 2 powi p))"
    using False by (simp add: to_double_def Let_def flip: e_def p_def)
  then show ?thesis
    unfolding r using small by (simp only: if_False)
qed

lemma to_double_42: "to_double 42 = Finite 42"
  using to_double_int [of 42] by simp

lemma to_double_3_14: "to_double (157 / 50) = Finite (7070651414971679 / 2251799813685248)"
proof -
  have "round_half_even (157 / 50 / 2 powi (- 51)) = 7070651414971679"
    by (rule round_half_even_near) (simp_all add: power_int_minus)
  then have "to_double (157 / 50) = Finite (of_int 7070651414971679 * 2 powi (- 51))"
    by (intro to_double_round [where e = 1]) (simp_all add: power_int_minus)
  then show ?thesis by (simp add: power_int_minus)
qed

lemma to_double_1e400: "to_double (10 ^ 400) = PosInfinity"
  by (rule to_double_overflow) simp

lemma to_double_1e_400: "to_double (1 / 10 ^ 400) = Finite 0"
proof -
  have "round_half_even (1 / 10 ^ 400 / 2 powi (- 1074)) = 0"
    by (rule round_half_even_near) (simp_all add: power_int_minus)
  then have "to_double (1 / 10 ^ 400) = Finite (of_int 0 * 2 powi (- 1074))"
    by (intro to_double_round [where e = "- 1329"]) (simp_all add: power_int_minus)
  then show ?thesis by simp
qed

lemma to_double_tie: "to_double 9007199254740993 = Finite 9007199254740992"
proof -
  have "(9007199254740993 / 2 :: rat) = of_int 4503599627370496 + 1 / 2"
    by simp
  then have "round_half_even (9007199254740993 / 2 powi 1) = 4503599627370496"
    by (simp only: round_half_even_tie power_int_1_right) simp
  then have "to_double 9007199254740993 = Finite (of_int 4503599627370496 * 2 powi 1)"
    by (intro to_double_round [where e = 53]) simp_all
  then show ?thesis by simp
qed

subsection \<open>Texts used in the examples\<close>

lemma to_double_0: "to_double 0 = Finite 0"
  by (simp add: to_double_def)

lemma to_double_1: "to_double 1 = Finite 1"
  using to_double_int [of 1] by simp

lemma to_double_numeral:
  "(numeral k :: int) < 2 ^ 53 \<Longrightarrow> to_double (numeral k) = Finite (numeral k)"
  using to_double_int [of "numeral k"] by simp

lemmas json_text_defs =
  json_value_def lex_step_def json_space_def starts_with_def lex_number_def lex_fraction_def
  lex_exponent_def digit_def digits_val_def digit_val_def pow10_def Let_def
  to_double_0 to_double_1 to_double_numeral

text \<open>The parser on some texts of the grammar and on some that are not.\<close>

lemma json_value_accepts:
  \<open>json_value '' { "a" : [1, {"b": null}, "x"], "a": true, "c": -0.5e1 } '' =
     Some (VObject [(''a'', VBoolean True), (''c'', VNumber (Finite (- 5)))])\<close>
  \<open>json_value ''[[], {}, "", 0, false, -0]'' =
     Some (VArray [VArray [], VObject [], VString [], VNumber (Finite 0), VBoolean False,
                   VNumber NegZero])\<close>
  by (simp_all add: json_text_defs)

lemma json_value_escapes:
  \<open>json_value (CHR 0x22 # ''a'' @ CHR 0x5C # ''n'' @ CHR 0x5C # ''u0041'' @ [CHR 0x22]) =
     Some (VString [CHR ''a'', CHR 0x0A, CHR ''A''])\<close>
  by code_simp

lemma json_value_rejects:
  \<open>json_value '''' = None\<close>
  \<open>json_value ''[1,]'' = None\<close>
  \<open>json_value ''{"a":1,}'' = None\<close>
  \<open>json_value ''{"a"}'' = None\<close>
  \<open>json_value ''{a:1}'' = None\<close>
  \<open>json_value ''[1 2]'' = None\<close>
  \<open>json_value ''[1]]'' = None\<close>
  \<open>json_value ''[}'' = None\<close>
  \<open>json_value ''01'' = None\<close>
  \<open>json_value ''1.'' = None\<close>
  \<open>json_value ''.5'' = None\<close>
  \<open>json_value ''+1'' = None\<close>
  \<open>json_value ''NaN'' = None\<close>
  \<open>json_value ''undefined'' = None\<close>
  \<open>json_value ''nulll'' = None\<close>
  \<open>json_value ''"abc'' = None\<close>
  by (simp_all add: json_text_defs)

lemma json_value_empty_array: "json_value ''[]'' = Some (VArray [])"
  by (simp add: json_text_defs)

lemma json_value_empty_object: "json_value ''{}'' = Some (VObject [])"
  by (simp add: json_text_defs)

lemma json_value_not_json: "json_value ''not json'' = None"
  by (simp add: json_text_defs)

lemma json_value_null: "json_value ''null'' = Some VNull"
  by (simp add: json_text_defs)

lemma json_value_five: "json_value ''5'' = Some (VNumber (Finite 5))"
  by (simp add: json_text_defs)

lemma json_value_pair: "json_value ''[1,2]'' = Some (VArray [VNumber (Finite 1), VNumber (Finite 2)])"
  by (simp add: json_text_defs)

lemma json_value_a1: \<open>json_value ''{"a":1}'' = Some (VObject [(''a'', VNumber (Finite 1))])\<close>
  by (simp add: json_text_defs)

lemma json_value_1e400: "json_value ''1e400'' = Some (VNumber PosInfinity)"
  using to_double_1e400 by (simp add: json_text_defs)

lemmas number_text_defs =
  parseFloat_def trimStart_def js_space_def unsigned_decimal_def digit_def digits_val_def
  digit_val_def pow10_def exponent_part_def Let_def

lemma parseFloat_42: "parseFloat ''42'' = Finite 42"
  using to_double_42 by (simp add: number_text_defs)

lemma parseFloat_3_14: "parseFloat ''3.14'' = Finite (7070651414971679 / 2251799813685248)"
  using to_double_3_14 by (simp add: number_text_defs)

lemma parseFloat_abc: "parseFloat ''abc'' = NaN"
  by (simp add: number_text_defs)

lemma parseFloat_Infinity: "parseFloat ''Infinity'' = PosInfinity"
  by (simp add: number_text_defs)

lemma parseFloat_empty: "parseFloat '''' = NaN"
  by (simp add: number_text_defs)

lemma parseFloat_1e400: "parseFloat ''1e400'' = PosInfinity"
  using to_double_1e400 by (simp add: number_text_defs)

lemma parseFloat_minus_1e_400: "parseFloat ''-1e-400'' = NegZero"
  using to_double_1e_400 by (simp add: number_text_defs)

lemma parseFloat_tie: "parseFloat ''9007199254740993'' = Finite 9007199254740992"
  using to_double_tie by (simp add: number_text_defs)

subsection \<open>The variable editor\<close>

text \<open>
  C7. Changing the type of a row with \<^verbatim>\<open>updateVariableField(index, 'type', t)\<close> sets its
  value to the default of the new type, whatever the row held before: the empty string
  for string and number, the empty string with \<open>boolValue\<close> false for boolean, \<open>[]\<close> for list
  and \<open>{}\<close> for object. It clears the row's \<open>parseError\<close>, keeps its key and leaves the other
  rows as they are.
\<close>

theorem type_change_resets_value:
  assumes "index < length fs"
  shows "\<exists>fs'. updateVariableField engine fs index (SetType t) = Some fs'
           \<and> length fs' = length fs
           \<and> type (fs' ! index) = t
           \<and> value (fs' ! index) = (case t of TList \<Rightarrow> ''[]'' | TObject \<Rightarrow> ''{}'' | _ \<Rightarrow> '''')
           \<and> (t = TBoolean \<longrightarrow> boolValue (fs' ! index) = False)
           \<and> parseError (fs' ! index) = None
           \<and> key (fs' ! index) = key (fs ! index)
           \<and> (\<forall>j < length fs. j \<noteq> index \<longrightarrow> fs' ! j = fs ! j)"
  using assms by (cases t) (simp_all add: updateVariableField_def)

theorem type_change_resets_value_witness:
  "(0::nat) < length [\<lparr>key = ''a'', type = TList, value = ''not json'', boolValue = True,
                       parseError = Some ''Invalid JSON''\<rparr>]
   \<and> updateVariableField sample_engine
        [\<lparr>key = ''a'', type = TList, value = ''not json'', boolValue = True,
           parseError = Some ''Invalid JSON''\<rparr>] 0 (SetType TBoolean)
      = Some [\<lparr>key = ''a'', type = TBoolean, value = '''', boolValue = False, parseError = None\<rparr>]"
  using type_change_resets_value
    [of 0 "[\<lparr>key = ''a'', type = TList, value = ''not json'', boolValue = True,
              parseError = Some ''Invalid JSON''\<rparr>]" sample_engine TBoolean]
  by (simp add: updateVariableField_def)

text \<open>
  C8. Editing the value of a row with \<^verbatim>\<open>updateVariableField(index, 'value', v)\<close> always
  stores the new text. For a row of type list or object the text is given to
  \<^verbatim>\<open>JSON.parse\<close>: \<open>parseError\<close> becomes \<open>Invalid JSON\<close> when that throws and is cleared when
  it returns. For a row of type string, number or boolean nothing is validated and
  \<open>parseError\<close> stays as it was.
\<close>

theorem value_edit_validation:
  assumes "index < length fs"
  shows "\<exists>fs'. updateVariableField engine fs index (SetValue v) = Some fs'
           \<and> value (fs' ! index) = v
           \<and> type (fs' ! index) = type (fs ! index)
           \<and> parseError (fs' ! index) =
               (if type (fs ! index) = TList \<or> type (fs ! index) = TObject
                then (if isl (JSON_parse engine v) then Some ''Invalid JSON'' else None)
                else parseError (fs ! index))"
  using assms by (simp add: updateVariableField_def split: sum.splits)

theorem value_edit_validation_witness:
  "(0::nat) < length [\<lparr>key = ''a'', type = TList, value = ''[]'', boolValue = False, parseError = None\<rparr>]
   \<and> updateVariableField sample_engine
        [\<lparr>key = ''a'', type = TList, value = ''[]'', boolValue = False, parseError = None\<rparr>] 0
        (SetValue ''not json'')
      = Some [\<lparr>key = ''a'', type = TList, value = ''not json'', boolValue = False,
                parseError = Some ''Invalid JSON''\<rparr>]"
  using value_edit_validation
    [of 0 "[\<lparr>key = ''a'', type = TList, value = ''[]'', boolValue = False, parseError = None\<rparr>]"
        sample_engine "''not json''"]
  by (simp add: updateVariableField_def JSON_parse_def json_value_not_json)

text \<open>
  C10. A row whose type was just switched to list or object converts without error: the
  default \<open>[]\<close> converts to the empty array and the default \<open>{}\<close> to the empty object.
\<close>

theorem fresh_type_switch_converts:
  assumes "index < length fs" and "t = TList \<or> t = TObject"
    and "updateVariableField engine fs index (SetType t) = Some fs'"
  shows "convert engine (fs' ! index) = Inr (if t = TList then VArray [] else VObject [])"
  using assms
  by (auto simp: updateVariableField_def convert_def parseVariableValue_def JSON_parse_def
      json_value_empty_array json_value_empty_object)

theorem fresh_type_switch_converts_witness:
  "(0::nat) < length [\<lparr>key = ''a'', type = TString, value = ''free text'', boolValue = False,
                       parseError = None\<rparr>]
   \<and> (TObject = TList \<or> TObject = TObject)
   \<and> updateVariableField sample_engine
        [\<lparr>key = ''a'', type = TString, value = ''free text'', boolValue = False,
           parseError = None\<rparr>] 0 (SetType TObject)
      = Some [\<lparr>key = ''a'', type = TObject, value = ''{}'', boolValue = False, parseError = None\<rparr>]
   \<and> convert sample_engine
        \<lparr>key = ''a'', type = TObject, value = ''{}'', boolValue = False, parseError = None\<rparr>
      = Inr (VObject [])"
proof -
  let ?fs = "[\<lparr>key = ''a'', type = TString, value = ''free text'', boolValue = False,
                parseError = None\<rparr>]"
  let ?fs' = "[\<lparr>key = ''a'', type = TObject, value = ''{}'', boolValue = False, parseError = None\<rparr>]"
  have i: "(0::nat) < length ?fs" by simp
  have t: "TObject = TList \<or> TObject = TObject" by simp
  have u: "updateVariableField sample_engine ?fs 0 (SetType TObject) = Some ?fs'"
    by (simp add: updateVariableField_def)
  show ?thesis
    using i u fresh_type_switch_converts [OF i t u] by simp
qed

subsection \<open>The run\<close>

lemma build_error_is_Error:
  "buildVariables engine vars rows = Inl err \<Longrightarrow> \<exists>m. err = Error m"
  by (induction rows arbitrary: vars) (auto split: if_splits sum.splits)

text \<open>The four ways a run can go, and the page each one leaves.\<close>

lemma submit_conversion_failure:
  assumes "buildVariables engine empty_object (variableFields s) = Inl err"
  shows "runPrompt engine baseUrl client data (variableFields s) =
           [SetIsRunning True, SetError None, SetPromptResponse None, SetFeedbackIds [],
            SetWidgetKey 0, SetError (Some (message_or err ''An unknown error occurred'')),
            SetIsRunning False]"
    and "submit engine baseUrl client data s =
           s\<lparr>isRunning := False, error := Some (message_or err ''An unknown error occurred''),
              promptResponse := None, feedbackIds := [], widgetKey := 0\<rparr>"
  using assms by (simp_all add: submit_def runPrompt_def try_block_def)

lemma submit_not_configured:
  assumes "buildVariables engine empty_object (variableFields s) = Inr vars"
    and "configured baseUrl = None"
  shows "runPrompt engine baseUrl client data (variableFields s) =
           [SetIsRunning True, SetError None, SetPromptResponse None, SetFeedbackIds [],
            SetWidgetKey 0,
            SetError (Some ''NEXT_PUBLIC_EXTERNAL_API_URL is not configured''),
            SetIsRunning False]"
    and "submit engine baseUrl client data s =
           s\<lparr>isRunning := False,
              error := Some ''NEXT_PUBLIC_EXTERNAL_API_URL is not configured'',
              promptResponse := None, feedbackIds := [], widgetKey := 0\<rparr>"
  using assms by (simp_all add: submit_def runPrompt_def try_block_def)

lemma submit_remote_failure:
  assumes "buildVariables engine empty_object (variableFields s) = Inr vars"
    and "configured baseUrl = Some url"
    and "client (apiKey data) url (promptSlug data) vars = Inl err"
  shows "runPrompt engine baseUrl client data (variableFields s) =
           [SetIsRunning True, SetError None, SetPromptResponse None, SetFeedbackIds [],
            SetWidgetKey 0, ClientRunPrompt (apiKey data) url (promptSlug data) vars,
            SetError (Some (message_or err ''An unknown error occurred'')),
            SetIsRunning False]"
    and "submit engine baseUrl client data s =
           s\<lparr>isRunning := False, error := Some (message_or err ''An unknown error occurred''),
              promptResponse := None, feedbackIds := [], widgetKey := 0\<rparr>"
  using assms by (simp_all add: submit_def runPrompt_def try_block_def)

lemma submit_success:
  assumes "buildVariables engine empty_object (variableFields s) = Inr vars"
    and "configured baseUrl = Some url"
    and "client (apiKey data) url (promptSlug data) vars = Inr result"
  shows "runPrompt engine baseUrl client data (variableFields s) =
           [SetIsRunning True, SetError None, SetPromptResponse None, SetFeedbackIds [],
            SetWidgetKey 0, ClientRunPrompt (apiKey data) url (promptSlug data) vars,
            SetPromptResponse (Some result), SetShowRunPrompt False, SetIsRunning False]"
    and "submit engine baseUrl client data s =
           s\<lparr>isRunning := False, error := None, promptResponse := Some result,
              feedbackIds := [], widgetKey := 0, showRunPrompt := False\<rparr>"
  using assms by (simp_all add: submit_def runPrompt_def try_block_def)

lemma submit_cases:
  obtains
    (conversion) err where "buildVariables engine empty_object (variableFields s) = Inl err"
  | (not_configured) vars where
      "buildVariables engine empty_object (variableFields s) = Inr vars"
      "configured baseUrl = None"
  | (remote) vars url err where
      "buildVariables engine empty_object (variableFields s) = Inr vars"
      "configured baseUrl = Some url"
      "client (apiKey data) url (promptSlug data) vars = Inl err"
  | (success) vars url result where
      "buildVariables engine empty_object (variableFields s) = Inr vars"
      "configured baseUrl = Some url"
      "client (apiKey data) url (promptSlug data) vars = Inr result"
proof (cases "buildVariables engine empty_object (variableFields s)")
  case (Inl err)
  then show ?thesis by (rule conversion)
next
  case vars: (Inr vars)
  show ?thesis
  proof (cases "configured baseUrl")
    case None
    with vars show ?thesis by (rule not_configured)
  next
    case (Some url)
    show ?thesis
    proof (cases "client (apiKey data) url (promptSlug data) vars")
      case (Inl err)
      with vars Some show ?thesis by (rule remote)
    next
      case (Inr result)
      with vars Some show ?thesis by (rule success)
    qed
  qed
qed

lemma submit_resets_feedback:
  "feedbackIds (submit engine baseUrl client data s) = []
   \<and> widgetKey (submit engine baseUrl client data s) = 0"
  by (cases rule: submit_cases [where engine = engine and s = s and baseUrl = baseUrl and client = client and data = data])
     (simp_all add: submit_conversion_failure submit_not_configured submit_remote_failure
        submit_success)

text \<open>
  C5. When the conversion of the variables fails, or no base URL is configured, the run
  makes no call of the remote client, leaves \<open>isRunning\<close> false, and sets \<open>error\<close>: to the
  message of the conversion error, or, when the conversion succeeded, to the message that
  the base URL is not configured.
\<close>

theorem no_client_call_on_local_failure:
  assumes "isl (buildVariables engine empty_object (variableFields s)) \<or> configured baseUrl = None"
  shows "\<not> list_ex is_client_call (runPrompt engine baseUrl client data (variableFields s))
         \<and> isRunning (submit engine baseUrl client data s) = False
         \<and> (\<exists>msg. error (submit engine baseUrl client data s) = Some msg
              \<and> (buildVariables engine empty_object (variableFields s) = Inl (Error msg)
                 \<or> (\<exists>vars. buildVariables engine empty_object (variableFields s) = Inr vars
                      \<and> msg = ''NEXT_PUBLIC_EXTERNAL_API_URL is not configured'')))"
proof (cases "buildVariables engine empty_object (variableFields s)")
  case (Inl err)
  then obtain m where "err = Error m"
    by (auto dest: build_error_is_Error)
  with Inl have "buildVariables engine empty_object (variableFields s) = Inl (Error m)"
    by simp
  then show ?thesis
    by (simp add: submit_conversion_failure)
next
  case (Inr vars)
  with assms have "configured baseUrl = None" by simp
  with Inr show ?thesis
    by (simp add: submit_not_configured)
qed

theorem no_client_call_on_local_failure_witness:
  "(isl (buildVariables sample_engine empty_object
           [\<lparr>key = ''n'', type = TNumber, value = ''abc'', boolValue = False, parseError = None\<rparr>])
      \<or> configured (Some ''http://api'') = None)
   \<and> error (submit sample_engine (Some ''http://api'') sample_client
         \<lparr>apiKey = ''k'', promptSlug = ''p'', variables = []\<rparr>
         \<lparr>promptResponse = Some ''old'', feedbackIds = [''f''], widgetKey = 1, error = None,
            isRunning = False,
            variableFields = [\<lparr>key = ''n'', type = TNumber, value = ''abc'', boolValue = False,
                                parseError = None\<rparr>],
            showRenderedPrompt = False, showRunPrompt = True, copiedRunId = False,
            copiedOutput = False\<rparr>)
      = Some (''Error parsing variable '' @ [CHR 0x22] @ ''n'' @ [CHR 0x22]
                @ '': Invalid number: abc'')"
proof -
  let ?rows = "[\<lparr>key = ''n'', type = TNumber, value = ''abc'', boolValue = False,
                  parseError = None\<rparr>]"
  let ?s = "\<lparr>promptResponse = Some ''old'', feedbackIds = [''f''], widgetKey = 1, error = None,
              isRunning = False, variableFields = ?rows,
              showRenderedPrompt = False, showRunPrompt = True, copiedRunId = False,
              copiedOutput = False\<rparr> :: string page"
  have b: "buildVariables sample_engine empty_object ?rows =
             Inl (Error (''Error parsing variable '' @ [CHR 0x22] @ ''n'' @ [CHR 0x22]
                           @ '': Invalid number: abc''))"
    by (simp add: convert_def parseVariableValue_def parseFloat_abc trim_def js_space_def)
  then have h: "isl (buildVariables sample_engine empty_object (variableFields ?s))
                  \<or> configured (Some ''http://api'') = None"
    by simp
  show ?thesis
    using b no_client_call_on_local_failure
      [OF h, of sample_client "\<lparr>apiKey = ''k'', promptSlug = ''p'', variables = []\<rparr>"]
    by simp
qed

text \<open>
  C6. A run begins with the five setter calls that clear the previous response, error and
  feedback ids, before the variables are converted: they are the first effects of every
  run, and the page they leave has none of the three. A run that fails, in the conversion,
  for the missing base URL or in the remote call, ends with an error and without a
  response: the response of an earlier successful run is gone.
\<close>

theorem run_clears_previous_outputs:
  "take 5 (runPrompt engine baseUrl client data (variableFields s)) =
     [SetIsRunning True, SetError None, SetPromptResponse None, SetFeedbackIds [], SetWidgetKey 0]
   \<and> promptResponse (foldl perform s (take 5 (runPrompt engine baseUrl client data (variableFields s)))) = None
   \<and> error (foldl perform s (take 5 (runPrompt engine baseUrl client data (variableFields s)))) = None
   \<and> feedbackIds (foldl perform s (take 5 (runPrompt engine baseUrl client data (variableFields s)))) = []
   \<and> (snd (try_block engine baseUrl client data (variableFields s)) \<noteq> None \<longrightarrow>
        promptResponse (submit engine baseUrl client data s) = None
        \<and> error (submit engine baseUrl client data s) \<noteq> None
        \<and> feedbackIds (submit engine baseUrl client data s) = [])"
proof -
  have first: "take 5 (runPrompt engine baseUrl client data (variableFields s)) =
     [SetIsRunning True, SetError None, SetPromptResponse None, SetFeedbackIds [], SetWidgetKey 0]"
    by (simp add: runPrompt_def)
  have failed: "promptResponse (submit engine baseUrl client data s) = None
        \<and> error (submit engine baseUrl client data s) \<noteq> None
        \<and> feedbackIds (submit engine baseUrl client data s) = []"
    if "snd (try_block engine baseUrl client data (variableFields s)) \<noteq> None"
  proof (cases rule: submit_cases [where engine = engine and s = s and baseUrl = baseUrl and client = client and data = data])
    case (conversion err)
    then show ?thesis by (simp add: submit_conversion_failure)
  next
    case (not_configured vars)
    then show ?thesis by (simp add: submit_not_configured)
  next
    case (remote vars url err)
    then show ?thesis by (simp add: submit_remote_failure)
  next
    case (success vars url result)
    with that show ?thesis by (simp add: try_block_def)
  qed
  show ?thesis
    unfolding first using failed by simp
qed

theorem run_clears_previous_outputs_witness:
  "snd (try_block sample_engine None sample_client
          \<lparr>apiKey = ''k'', promptSlug = ''p'', variables = []\<rparr> []) \<noteq> None
   \<and> promptResponse (submit sample_engine None sample_client
         \<lparr>apiKey = ''k'', promptSlug = ''p'', variables = []\<rparr>
         \<lparr>promptResponse = Some ''old'', feedbackIds = [''f''], widgetKey = 1, error = None,
            isRunning = False, variableFields = [],
            showRenderedPrompt = False, showRunPrompt = True, copiedRunId = False,
            copiedOutput = False\<rparr>) = None"
proof -
  let ?s = "\<lparr>promptResponse = Some ''old'', feedbackIds = [''f''], widgetKey = 1, error = None,
              isRunning = False, variableFields = [],
              showRenderedPrompt = False, showRunPrompt = True, copiedRunId = False,
              copiedOutput = False\<rparr> :: string page"
  have h: "snd (try_block sample_engine None sample_client
          \<lparr>apiKey = ''k'', promptSlug = ''p'', variables = []\<rparr> (variableFields ?s)) \<noteq> None"
    by (simp add: try_block_def configured_def)
  show ?thesis
    using h run_clears_previous_outputs
      [of sample_engine None sample_client
          "\<lparr>apiKey = ''k'', promptSlug = ''p'', variables = []\<rparr>" ?s]
    by simp
qed

subsection \<open>Feedback\<close>

lemma submissions_append:
  "feedbackIds (submissions ids s) = feedbackIds s @ ids
   \<and> widgetKey (submissions ids s) = widgetKey s + length ids
   \<and> promptResponse (submissions ids s) = promptResponse s"
  by (induction ids arbitrary: s) (simp_all add: onSuccess_def)

lemma mount_keys_upt: "mount_keys ids s = [widgetKey s ..< widgetKey s + length ids]"
proof (induction ids arbitrary: s)
  case Nil
  then show ?case by simp
next
  case (Cons feedbackId ids)
  have "widgetKey (onSuccess feedbackId s) = Suc (widgetKey s)"
    by (simp add: onSuccess_def)
  with Cons show ?case
    by (simp add: upt_rec)
qed

text \<open>
  C9. Every success callback of the feedback widget appends the feedback id it is given to
  \<open>feedbackIds\<close> and adds 1 to \<open>widgetKey\<close>. After any number of submissions the list has
  grown by their ids, in order, and the widget was mounted under a different key for each
  of them. After a successful run, two submissions leave a list of length 2, made under
  the keys 0 and 1.
\<close>

theorem feedback_accumulates:
  "feedbackIds (onSuccess feedbackId s) = feedbackIds s @ [feedbackId]
   \<and> widgetKey (onSuccess feedbackId s) = widgetKey s + 1
   \<and> feedbackIds (submissions ids s) = feedbackIds s @ ids
   \<and> widgetKey (submissions ids s) = widgetKey s + length ids
   \<and> mount_keys ids s = [widgetKey s ..< widgetKey s + length ids]
   \<and> distinct (mount_keys ids s)
   \<and> (promptResponse (submit engine baseUrl client data s) = Some result \<longrightarrow>
        feedbackIds (submissions [a, b] (submit engine baseUrl client data s)) = [a, b]
        \<and> length (feedbackIds (submissions [a, b] (submit engine baseUrl client data s))) = 2
        \<and> mount_keys [a, b] (submit engine baseUrl client data s) = [0, 1]
        \<and> widgetKey (submissions [a, b] (submit engine baseUrl client data s)) = 2
        \<and> promptResponse (submissions [a, b] (submit engine baseUrl client data s)) = Some result)"
proof -
  have "mount_keys [a, b] (submit engine baseUrl client data s) = [0, 1]"
    using submit_resets_feedback [of engine baseUrl client data s]
    by (simp add: onSuccess_def)
  then show ?thesis
    using submit_resets_feedback [of engine baseUrl client data s]
    by (simp add: submissions_append mount_keys_upt onSuccess_def)
qed

theorem feedback_accumulates_witness:
  "promptResponse (submit sample_engine (Some ''http://api'') sample_client
       \<lparr>apiKey = ''k'', promptSlug = ''p'', variables = []\<rparr>
       \<lparr>promptResponse = None, feedbackIds = [''f''], widgetKey = 1, error = None,
          isRunning = False, variableFields = [],
          showRenderedPrompt = False, showRunPrompt = True, copiedRunId = False,
          copiedOutput = False\<rparr>) = Some ''run-1''
   \<and> feedbackIds (submissions [''f1'', ''f2'']
        (submit sample_engine (Some ''http://api'') sample_client
           \<lparr>apiKey = ''k'', promptSlug = ''p'', variables = []\<rparr>
           \<lparr>promptResponse = None, feedbackIds = [''f''], widgetKey = 1, error = None,
              isRunning = False, variableFields = [],
              showRenderedPrompt = False, showRunPrompt = True, copiedRunId = False,
              copiedOutput = False\<rparr>)) = [''f1'', ''f2'']"
proof -
  let ?s = "\<lparr>promptResponse = None, feedbackIds = [''f''], widgetKey = 1, error = None,
              isRunning = False, variableFields = [],
              showRenderedPrompt = False, showRunPrompt = True, copiedRunId = False,
              copiedOutput = False\<rparr> :: string page"
  let ?d = "\<lparr>apiKey = ''k'', promptSlug = ''p'', variables = []\<rparr>"
  have r: "promptResponse (submit sample_engine (Some ''http://api'') sample_client ?d ?s)
             = Some ''run-1''"
    by (simp add: submit_def runPrompt_def try_block_def configured_def sample_client_def)
  show ?thesis
    using r feedback_accumulates
      [of "''f''" ?s "[]" sample_engine "Some ''http://api''" sample_client ?d "''run-1''"
          "''f1''" "''f2''"]
    by simp
qed

subsection \<open>Conversion\<close>

lemma convert_error_is_Error:
  "convert engine f = Inl err \<Longrightarrow> \<exists>m. err = Error m"
  by (cases "type f")
     (auto simp: convert_def parseVariableValue_def Let_def split: if_splits sum.splits)

lemma build_append:
  "buildVariables engine vars (pre @ rest) =
     (case buildVariables engine vars pre of
        Inl err \<Rightarrow> Inl err
      | Inr vars' \<Rightarrow> buildVariables engine vars' rest)"
  by (induction pre arbitrary: vars) (auto split: sum.splits)

lemma build_without_failure:
  assumes "\<forall>g \<in> set pre. \<not> (trim (key g) \<noteq> [] \<and> isl (convert engine g))"
  shows "\<exists>vars'. buildVariables engine vars pre = Inr vars'"
  using assms
proof (induction pre arbitrary: vars)
  case Nil
  then show ?case by simp
next
  case (Cons g pre)
  show ?case
  proof (cases "trim (key g) = []")
    case True
    with Cons show ?thesis by simp
  next
    case False
    with Cons.prems obtain v where "convert engine g = Inr v"
      by (cases "convert engine g") auto
    with False Cons show ?thesis by simp
  qed
qed

text \<open>
  C4. When some row with a non-blank key fails to convert, the loop ends at the first such
  row in the order of the list: the result is one error, whose message holds that row's
  key and the message of its conversion error, and it is the same whatever rows follow,
  none of which is converted.
\<close>

theorem first_failure_aborts:
  assumes "\<exists>f \<in> set rows. trim (key f) \<noteq> [] \<and> isl (convert engine f)"
  shows \<open>\<exists>pre f post m.
           rows = pre @ f # post
           \<and> (\<forall>g \<in> set pre. \<not> (trim (key g) \<noteq> [] \<and> isl (convert engine g)))
           \<and> trim (key f) \<noteq> []
           \<and> convert engine f = Inl (Error m)
           \<and> (\<forall>post'. buildVariables engine vars (pre @ f # post') =
                 Inl (Error (''Error parsing variable "'' @ key f @ ''": '' @ m)))\<close>
proof -
  from assms obtain pre f post where
    rows: "rows = pre @ f # post" and
    f: "trim (key f) \<noteq> [] \<and> isl (convert engine f)" and
    pre: "\<forall>g \<in> set pre. \<not> (trim (key g) \<noteq> [] \<and> isl (convert engine g))"
    by (auto dest!: split_list_first_prop [where P = "\<lambda>f. trim (key f) \<noteq> [] \<and> isl (convert engine f)"])
  from f obtain err where "convert engine f = Inl err"
    by (cases "convert engine f") auto
  then obtain m where m: "convert engine f = Inl (Error m)"
    by (auto dest: convert_error_is_Error)
  from pre obtain vars' where ok: "buildVariables engine vars pre = Inr vars'"
    using build_without_failure by blast
  have \<open>buildVariables engine vars (pre @ f # post') =
          Inl (Error (''Error parsing variable "'' @ key f @ ''": '' @ m))\<close> for post'
    using f m ok by (simp add: build_append)
  with rows pre f m show ?thesis by blast
qed

theorem first_failure_aborts_witness:
  \<open>(\<exists>f \<in> set [\<lparr>key = ''a'', type = TString, value = ''x'', boolValue = False, parseError = None\<rparr>,
                \<lparr>key = ''n'', type = TNumber, value = ''abc'', boolValue = False, parseError = None\<rparr>,
                \<lparr>key = ''l'', type = TList, value = ''{}'', boolValue = False, parseError = None\<rparr>].
      trim (key f) \<noteq> [] \<and> isl (convert sample_engine f))
   \<and> (\<exists>pre f post m.
         [\<lparr>key = ''a'', type = TString, value = ''x'', boolValue = False, parseError = None\<rparr>,
          \<lparr>key = ''n'', type = TNumber, value = ''abc'', boolValue = False, parseError = None\<rparr>,
          \<lparr>key = ''l'', type = TList, value = ''{}'', boolValue = False, parseError = None\<rparr>]
           = pre @ f # post
         \<and> (\<forall>g \<in> set pre. \<not> (trim (key g) \<noteq> [] \<and> isl (convert sample_engine g)))
         \<and> trim (key f) \<noteq> []
         \<and> convert sample_engine f = Inl (Error m)
         \<and> (\<forall>post'. buildVariables sample_engine empty_object (pre @ f # post') =
               Inl (Error (''Error parsing variable "'' @ key f @ ''": '' @ m))))\<close>
proof -
  let ?a = "\<lparr>key = ''a'', type = TString, value = ''x'', boolValue = False, parseError = None\<rparr>"
  let ?n = "\<lparr>key = ''n'', type = TNumber, value = ''abc'', boolValue = False, parseError = None\<rparr>"
  let ?l = "\<lparr>key = ''l'', type = TList, value = ''{}'', boolValue = False, parseError = None\<rparr>"
  have n: "trim (key ?n) \<noteq> [] \<and> isl (convert sample_engine ?n)"
    by (simp add: convert_def parseVariableValue_def parseFloat_abc trim_def js_space_def)
  then have h: "\<exists>f \<in> set [?a, ?n, ?l]. trim (key f) \<noteq> [] \<and> isl (convert sample_engine f)"
    by simp
  from h first_failure_aborts [OF h, of empty_object] show ?thesis
    by (rule conjI)
qed

lemma first_failure_example:
  \<open>buildVariables sample_engine empty_object
     [\<lparr>key = ''a'', type = TString, value = ''x'', boolValue = False, parseError = None\<rparr>,
      \<lparr>key = ''n'', type = TNumber, value = ''abc'', boolValue = False, parseError = None\<rparr>,
      \<lparr>key = ''l'', type = TList, value = ''{}'', boolValue = False, parseError = None\<rparr>]
   = Inl (Error ''Error parsing variable "n": Invalid number: abc'')\<close>
  by (simp add: convert_def parseVariableValue_def parseFloat_abc trim_def js_space_def)

lemma takeWhile_empty_iff:
  "takeWhile P xs = [] \<longleftrightarrow> (case xs of [] \<Rightarrow> True | x # _ \<Rightarrow> \<not> P x)"
  by (cases xs) simp_all

lemma unsigned_decimal_NaN: "isNaN (unsigned_decimal u) \<longleftrightarrow> \<not> decimal_start u"
proof (cases "take 8 u = ''Infinity''")
  case True
  then show ?thesis
    by (simp add: unsigned_decimal_def decimal_start_def)
next
  case inf: False
  show ?thesis
  proof (cases u)
    case Nil
    then show ?thesis
      by (simp add: unsigned_decimal_def decimal_start_def)
  next
    case (Cons c r)
    show ?thesis
    proof (cases "digit c")
      case True
      with inf Cons show ?thesis
        by (simp add: unsigned_decimal_def decimal_start_def Let_def to_double_not_NaN)
    next
      case False
      with inf Cons show ?thesis
        by (cases r)
           (auto simp: unsigned_decimal_def decimal_start_def Let_def to_double_not_NaN
              takeWhile_empty_iff split: list.splits)
    qed
  qed
qed

lemma isNaN_negate: "isNaN (negate n) = isNaN n"
  by (cases n) simp_all

lemma parseFloat_NaN: "isNaN (parseFloat s) \<longleftrightarrow> \<not> numeric_prefix s"
  by (cases "trimStart s")
     (simp_all add: parseFloat_def numeric_prefix_def unsigned_decimal_NaN isNaN_negate)

text \<open>
  C2. Number conversion fails exactly when \<^verbatim>\<open>parseFloat\<close> gives NaN, that is, when the
  text does not begin, after white space and a sign, with \<^verbatim>\<open>Infinity\<close>, a digit, or a
  dot and a digit. Otherwise it returns what \<^verbatim>\<open>parseFloat\<close> gives, which is an infinity
  for \<^verbatim>\<open>Infinity\<close> and for a literal too large for a double, such as \<open>1e400\<close>. \<open>42\<close>
  converts to 42 and \<open>3.14\<close> to the double nearest to 3.14; \<open>abc\<close> fails with the message
  \<open>Invalid number: abc\<close>, which the loop over the rows puts after the key of the variable.
\<close>

theorem number_conversion:
  \<open>((\<exists>err. parseVariableValue engine TNumber text b = Inl err) \<longleftrightarrow> \<not> numeric_prefix text)
   \<and> parseVariableValue engine TNumber text b =
       (if isNaN (parseFloat text) then Inl (Error (''Invalid number: '' @ text))
        else Inr (VNumber (parseFloat text)))
   \<and> parseVariableValue engine TNumber ''42'' b = Inr (VNumber (Finite 42))
   \<and> parseVariableValue engine TNumber ''3.14'' b =
       Inr (VNumber (Finite (7070651414971679 / 2251799813685248)))
   \<and> parseVariableValue engine TNumber ''1e400'' b = Inr (VNumber PosInfinity)
   \<and> parseVariableValue engine TNumber ''abc'' b = Inl (Error ''Invalid number: abc'')
   \<and> (trim k \<noteq> [] \<longrightarrow>
        buildVariables engine vars
          [\<lparr>key = k, type = TNumber, value = ''abc'', boolValue = b, parseError = pe\<rparr>]
        = Inl (Error (''Error parsing variable "'' @ k @ ''": Invalid number: abc'')))\<close>
  by (simp add: parseVariableValue_def convert_def Let_def parseFloat_42 parseFloat_3_14
      parseFloat_1e400 parseFloat_abc flip: parseFloat_NaN)

theorem number_conversion_witness:
  \<open>trim ''n'' \<noteq> []
   \<and> buildVariables sample_engine empty_object
        [\<lparr>key = ''n'', type = TNumber, value = ''abc'', boolValue = False, parseError = None\<rparr>]
      = Inl (Error ''Error parsing variable "n": Invalid number: abc'')\<close>
  using number_conversion [of sample_engine "''abc''" False "''n''" empty_object None]
  by (simp add: trim_def js_space_def)

text \<open>
  C2, as first stated (the conversion fails whenever the text does not parse to a finite
  number), does not hold: the text \<open>Infinity\<close> does not parse to a finite number, and its
  conversion does not fail but returns the infinity.
\<close>

theorem number_conversion_counterexample:
  "\<not> isFinite (parseFloat ''Infinity'')
   \<and> parseVariableValue sample_engine TNumber ''Infinity'' False = Inr (VNumber PosInfinity)"
  by (simp add: parseVariableValue_def Let_def parseFloat_Infinity)

text \<open>
  Object conversion returns the parsed value when \<^verbatim>\<open>JSON.parse\<close> gives an object or
  null, and fails otherwise: with the engine's message when the text is not JSON, with
  \<open>Value must be an object\<close> when it denotes an array or a primitive other than null.
\<close>

lemma object_conversion_cases:
  "parseVariableValue engine TObject text b =
     (case json_value text of
        None \<Rightarrow> Inl (Error (''Invalid object JSON: '' @ engine text))
      | Some (VObject ms) \<Rightarrow> Inr (VObject ms)
      | Some VNull \<Rightarrow> Inr VNull
      | Some _ \<Rightarrow> Inl (Error ''Invalid object JSON: Value must be an object''))"
  by (simp add: parseVariableValue_def JSON_parse_def split: option.splits js_value.splits)

lemma object_conversion_examples:
  \<open>parseVariableValue engine TObject ''{"a":1}'' b = Inr (VObject [(''a'', VNumber (Finite 1))])\<close>
  "parseVariableValue engine TObject ''[1,2]'' b =
     Inl (Error ''Invalid object JSON: Value must be an object'')"
  "parseVariableValue engine TObject ''5'' b =
     Inl (Error ''Invalid object JSON: Value must be an object'')"
  by (simp_all add: object_conversion_cases json_value_a1 json_value_pair json_value_five)

text \<open>
  C1. Object conversion is meant to reject every text that does not denote an object. On
  the text \<open>null\<close> it does not: \<^verbatim>\<open>JSON.parse\<close> gives null, \<^verbatim>\<open>Array.isArray(null)\<close> is
  false and \<^verbatim>\<open>typeof null\<close> is \<^verbatim>\<open>'object'\<close>, so the guard lets null through and the
  conversion returns it.
\<close>

theorem object_conversion_accepts_null:
  "parseVariableValue engine TObject ''null'' b = Inr VNull"
  by (simp add: object_conversion_cases json_value_null)

theorem object_conversion_accepts_null_witness:
  "parseVariableValue sample_engine TObject ''null'' False = Inr VNull"
  by (rule object_conversion_accepts_null)

subsection \<open>The payload object\<close>

lemma map_of_define_property:
  "map_of (define_property k v ms) k' = (if k' = k then Some v else map_of ms k')"
  by (induction ms) auto

lemma get_own_assign:
  "k \<noteq> ''__proto__'' \<Longrightarrow> get_own (assign obj k v) k' = (if k' = k then Some v else get_own obj k')"
  by (simp add: assign_def get_own_def map_of_define_property)

lemma get_own_assign_other:
  "k' \<noteq> k \<Longrightarrow> get_own (assign obj k v) k' = get_own obj k'"
  by (cases v) (simp_all add: assign_def get_own_def map_of_define_property proto_setter_def)

text \<open>A row with a blank key adds nothing to the object and raises no error.\<close>

lemma blank_key_skipped:
  "trim (key f) = [] \<Longrightarrow>
     buildVariables engine vars (pre @ f # post) = buildVariables engine vars (pre @ post)"
  by (simp add: build_append split: sum.splits)

text \<open>Rows with other keys leave the own property \<open>k\<close> as it is.\<close>

lemma build_keeps_other_keys:
  assumes "buildVariables engine vars rows = Inr res"
    and "\<forall>g \<in> set rows. trim (key g) \<noteq> k"
  shows "get_own res k = get_own vars k"
  using assms
proof (induction rows arbitrary: vars)
  case Nil
  then show ?case by simp
next
  case (Cons g rows)
  show ?case
  proof (cases "trim (key g) = []")
    case True
    with Cons show ?thesis by simp
  next
    case False
    with Cons.prems obtain v where
      v: "convert engine g = Inr v" and
      r: "buildVariables engine (assign vars (trim (key g)) v) rows = Inr res"
      by (auto split: sum.splits)
    from Cons.prems have "k \<noteq> trim (key g)" by auto
    then have "get_own (assign vars (trim (key g)) v) k = get_own vars k"
      by (rule get_own_assign_other)
    moreover from Cons.prems have "\<forall>g \<in> set rows. trim (key g) \<noteq> k" by simp
    ultimately show ?thesis
      using Cons.IH [OF r] by simp
  qed
qed

text \<open>
  For every key other than \<^verbatim>\<open>__proto__\<close>: when the conversion of the whole list succeeds,
  the object holds, under a key, the converted value of the last row with that trimmed key.
\<close>

lemma last_row_wins:
  assumes "buildVariables engine vars (pre @ f # post) = Inr res"
    and "trim (key f) \<noteq> []" and "trim (key f) \<noteq> ''__proto__''"
    and "\<forall>g \<in> set post. trim (key g) \<noteq> trim (key f)"
  shows "\<exists>v. convert engine f = Inr v \<and> get_own res (trim (key f)) = Some v"
proof -
  from assms(1) obtain vars' where
    p: "buildVariables engine vars pre = Inr vars'" and
    r: "buildVariables engine vars' (f # post) = Inr res"
    by (auto simp: build_append split: sum.splits)
  from r assms(2) obtain v where
    v: "convert engine f = Inr v" and
    q: "buildVariables engine (assign vars' (trim (key f)) v) post = Inr res"
    by (auto split: sum.splits)
  have "get_own res (trim (key f)) = get_own (assign vars' (trim (key f)) v) (trim (key f))"
    using q assms(4) by (rule build_keeps_other_keys)
  also have "\<dots> = Some v"
    using assms(3) by (simp add: get_own_assign)
  finally show ?thesis
    using v by simp
qed

text \<open>
  C3. The loop is meant to leave, for every non-blank key, the converted value of the last
  row with that key in the object. For the key \<^verbatim>\<open>__proto__\<close> it does not: the assignment
  \<^verbatim>\<open>variables['__proto__'] = v\<close> runs the setter of \<^verbatim>\<open>Object.prototype\<close>, which defines
  no property, so two string rows with that key convert without error and leave the
  object empty.
\<close>

theorem proto_key_is_dropped:
  "buildVariables engine empty_object
     [\<lparr>key = ''__proto__'', type = TString, value = ''a'', boolValue = False, parseError = None\<rparr>,
      \<lparr>key = ''__proto__'', type = TString, value = ''b'', boolValue = False, parseError = None\<rparr>]
   = Inr empty_object
   \<and> get_own empty_object ''__proto__'' = None"
  by (simp add: convert_def parseVariableValue_def trim_def js_space_def assign_def
      reaches_proto_setter_def has_own_def proto_setter_def empty_object_def get_own_def)

theorem proto_key_is_dropped_witness:
  "get_own empty_object ''__proto__'' = None
   \<and> buildVariables sample_engine empty_object
        [\<lparr>key = ''__proto__'', type = TString, value = ''a'', boolValue = False, parseError = None\<rparr>,
         \<lparr>key = ''__proto__'', type = TString, value = ''b'', boolValue = False, parseError = None\<rparr>]
      = Inr \<lparr>own = [], proto = ObjectPrototype\<rparr>"
  using proto_key_is_dropped [of sample_engine]
  by (simp add: empty_object_def)

end
